theory Spec2Isabelle
  imports Main "HOL-Library.Sublist"
begin

section \<open>Strings of the host language\<close>

text \<open>
  A string is a list of code units. Header values are byte strings of the Fetch API (every
  code unit below 256), and all other strings are taken in the same range, so a code unit is
  a \<^typ>\<open>char\<close> and \<open>of_char\<close> is its code point.
\<close>

definition toLowerCase_char :: "char \<Rightarrow> char" where
  \<comment> \<open>\<open>String.prototype.toLowerCase\<close> on one code unit below 256: A-Z and the accented
      capitals U+00C0..U+00DE (the multiplication sign U+00D7 apart) move up by 32.\<close>
  "toLowerCase_char c =
     (let n = (of_char c :: nat)
      in if (65 \<le> n \<and> n \<le> 90) \<or> (192 \<le> n \<and> n \<le> 222 \<and> n \<noteq> 215)
         then char_of (n + 32) else c)"

definition toLowerCase :: "string \<Rightarrow> string" where
  "toLowerCase s = map toLowerCase_char s"

definition truthy_str :: "string option \<Rightarrow> bool" where
  \<comment> \<open>truthiness of a \<open>string | null | undefined\<close>: only a non-empty string is truthy\<close>
  "truthy_str v = (case v of None \<Rightarrow> False | Some s \<Rightarrow> s \<noteq> [])"



abbreviation DQ :: char where "DQ \<equiv> CHR 0x22"
abbreviation BSL :: char where "BSL \<equiv> CHR 0x5C"
abbreviation LF :: char where "LF \<equiv> CHR 0x0A"

fun js_join :: "string \<Rightarrow> string list \<Rightarrow> string" where
  \<comment> \<open>\<open>Array.prototype.join\<close> on an array of strings\<close>
  "js_join sep [] = []"
| "js_join sep [x] = x"
| "js_join sep (x # y # ys) = x @ sep @ js_join sep (y # ys)"

definition digit_char :: "nat \<Rightarrow> char" where
  "digit_char d = char_of (48 + d)"

fun show_nat :: "nat \<Rightarrow> string" where
  "show_nat n = (if n < 10 then [digit_char n] else show_nat (n div 10) @ [digit_char (n mod 10)])"

declare show_nat.simps [simp del]

definition show_int :: "int \<Rightarrow> string" where
  "show_int i = (if i < 0 then CHR ''-'' # show_nat (nat (- i)) else show_nat (nat i))"

definition is_digit :: "char \<Rightarrow> bool" where
  "is_digit c = (48 \<le> (of_char c :: nat) \<and> (of_char c :: nat) \<le> 57)"

definition digits_val :: "string \<Rightarrow> int" where
  \<comment> \<open>the number a string of decimal digits denotes\<close>
  "digits_val s = foldl (\<lambda>acc c. 10 * acc + (of_char c - 48)) 0 s"

definition is_js_space :: "char \<Rightarrow> bool" where
  \<comment> \<open>white space and line terminators below 256: TAB, LF, VT, FF, CR, SP, NBSP\<close>
  "is_js_space c = ((of_char c :: nat) \<in> {9, 10, 11, 12, 13, 32, 160})"

datatype parsed_number = NaN | Num int

definition parseInt :: "string \<Rightarrow> parsed_number" where
  \<comment> \<open>\<open>parseInt(s, 10)\<close>: leading white space, an optional sign, then the longest run of
      decimal digits; anything after it is ignored, no digit at all is \<open>NaN\<close>. The result is
      the mathematical integer, which is what the host computes below \<open>2^53\<close>.\<close>
  "parseInt s =
     (let S = dropWhile is_js_space s;
          neg = (case S of [] \<Rightarrow> False | c # _ \<Rightarrow> c = CHR ''-'');
          S' = (case S of [] \<Rightarrow> [] | c # cs \<Rightarrow> if c = CHR ''-'' \<or> c = CHR ''+'' then cs else S);
          Z = takeWhile is_digit S'
      in if Z = [] then NaN
         else Num ((if neg then - 1 else 1) * digits_val Z))"


section \<open>Values and objects\<close>

text \<open>
  Tool arguments arrive as parsed JSON. Numbers are the integers; an object is the list of its
  own properties in property order, with distinct keys.
\<close>

datatype json =
    JNull
  | JBool bool
  | JNum int
  | JStr string
  | JArr "json list"
  | JObj "(string \<times> json) list"

definition is_array_index :: "string \<Rightarrow> bool" where
  \<comment> \<open>a canonical numeric string below \<open>2^32 - 1\<close>: such keys are enumerated first, ascending\<close>
  "is_array_index k =
     (k \<noteq> [] \<and> list_all is_digit k \<and> (k = ''0'' \<or> hd k \<noteq> CHR ''0'') \<and> digits_val k < 4294967295)"

definition obj_put :: "string \<Rightarrow> 'a \<Rightarrow> (string \<times> 'a) list \<Rightarrow> (string \<times> 'a) list" where
  \<comment> \<open>define or overwrite one own property: an existing key keeps its place, a new array
      index goes among the indices in ascending order, any other new key goes last\<close>
  "obj_put k v obj =
     (if k \<in> fst ` set obj then map (\<lambda>(k', v'). if k' = k then (k', v) else (k', v')) obj
      else if is_array_index k then
        (let smaller = (\<lambda>(k', v'). is_array_index k' \<and> digits_val k' < digits_val k)
         in takeWhile smaller obj @ [(k, v)] @ dropWhile smaller obj)
      else obj @ [(k, v)])"

definition js_object :: "(string \<times> 'a) list \<Rightarrow> (string \<times> 'a) list" where
  \<comment> \<open>an object literal (spreads flattened): its properties defined left to right\<close>
  "js_object props = foldl (\<lambda>obj (k, v). obj_put k v obj) [] props"

definition truthy :: "json \<Rightarrow> bool" where
  "truthy v = (case v of JNull \<Rightarrow> False | JBool b \<Rightarrow> b | JNum n \<Rightarrow> n \<noteq> 0
               | JStr s \<Rightarrow> s \<noteq> [] | JArr _ \<Rightarrow> True | JObj _ \<Rightarrow> True)"

definition hex_lower :: "nat \<Rightarrow> char" where
  "hex_lower d = (if d < 10 then char_of (48 + d) else char_of (87 + d))"

definition hex_upper :: "nat \<Rightarrow> char" where
  "hex_upper d = (if d < 10 then char_of (48 + d) else char_of (55 + d))"

definition json_escape_char :: "char \<Rightarrow> string" where
  "json_escape_char c =
     (let n = (of_char c :: nat)
      in if n = 8 then [BSL, CHR ''b'']
         else if n = 9 then [BSL, CHR ''t'']
         else if n = 10 then [BSL, CHR ''n'']
         else if n = 12 then [BSL, CHR ''f'']
         else if n = 13 then [BSL, CHR ''r'']
         else if c = DQ then [BSL, DQ]
         else if c = BSL then [BSL, BSL]
         else if n < 32 then [BSL, CHR ''u'', CHR ''0'', CHR ''0'', hex_lower (n div 16), hex_lower (n mod 16)]
         else [c])"

definition quote_json :: "string \<Rightarrow> string" where
  \<comment> \<open>\<open>JSON.stringify\<close> of a string\<close>
  "quote_json s = DQ # concat (map json_escape_char s) @ [DQ]"

fun JSON_stringify :: "json \<Rightarrow> string" where
  "JSON_stringify JNull = ''null''"
| "JSON_stringify (JBool b) = (if b then ''true'' else ''false'')"
| "JSON_stringify (JNum n) = show_int n"
| "JSON_stringify (JStr s) = quote_json s"
| "JSON_stringify (JArr xs) = ''['' @ js_join '','' (map JSON_stringify xs) @ '']''"
| "JSON_stringify (JObj ps) =
     ''{'' @ js_join '','' (map (\<lambda>(k, v). quote_json k @ '':'' @ JSON_stringify v) ps) @ ''}''"

fun js_String :: "json \<Rightarrow> string" where
  \<comment> \<open>\<open>String(val)\<close> for a value that is neither \<open>null\<close> nor \<open>undefined\<close> at the top; inside an
      array \<open>null\<close> is the empty string\<close>
  "js_String JNull = ''null''"
| "js_String (JBool b) = (if b then ''true'' else ''false'')"
| "js_String (JNum n) = show_int n"
| "js_String (JStr s) = s"
| "js_String (JArr xs) = js_join '','' (map (\<lambda>x. if x = JNull then [] else js_String x) xs)"
| "js_String (JObj ps) = ''[object Object]''"

datatype jsvalue =
    Undefined
  | Native string
  | Json json
  | Object "(string \<times> jsvalue) list"
  | Array "jsvalue list"

text \<open>
  What a method hands back after reshaping a response: \<open>undefined\<close>, a built-in function,
  a value taken from the response as it is, or an object or array that the method builds.
\<close>

definition truthy_value :: "jsvalue \<Rightarrow> bool" where
  "truthy_value v = (case v of Undefined \<Rightarrow> False | Json j \<Rightarrow> truthy j | _ \<Rightarrow> True)"

definition truthy_num :: "int option \<Rightarrow> bool" where
  \<comment> \<open>truthiness of a \<open>number | undefined\<close>\<close>
  "truthy_num n = (case n of None \<Rightarrow> False | Some i \<Rightarrow> i \<noteq> 0)"

definition num_or :: "int option \<Rightarrow> int \<Rightarrow> int" where
  \<comment> \<open>\<open>n || d\<close>\<close>
  "num_or n d = (if truthy_num n then the n else d)"

definition defined_props :: "(string \<times> json option) list \<Rightarrow> (string \<times> json) list" where
  \<comment> \<open>the properties of an object that \<open>JSON.stringify\<close> writes: those that are not \<open>undefined\<close>\<close>
  "defined_props ps = concat (map (\<lambda>(k, v). case v of None \<Rightarrow> [] | Some x \<Rightarrow> [(k, x)]) ps)"

definition btoa_char :: "nat \<Rightarrow> char" where
  "btoa_char n = ''ABCDEFGHIJKLMNOPQRSTUVWXYZabcdefghijklmnopqrstuvwxyz0123456789+/'' ! n"

fun btoa :: "string \<Rightarrow> string" where
  \<comment> \<open>Base64 of a string of code units below 256, padded with \<open>=\<close>\<close>
  "btoa [] = []"
| "btoa [a] =
     (let x = (of_char a :: nat)
      in [btoa_char (x div 4), btoa_char ((x mod 4) * 16), CHR ''='', CHR ''=''])"
| "btoa [a, b] =
     (let x = (of_char a :: nat); y = (of_char b :: nat)
      in [btoa_char (x div 4), btoa_char ((x mod 4) * 16 + y div 16),
          btoa_char ((y mod 16) * 4), CHR ''=''])"
| "btoa (a # b # c # rest) =
     (let x = (of_char a :: nat); y = (of_char b :: nat); z = (of_char c :: nat)
      in [btoa_char (x div 4), btoa_char ((x mod 4) * 16 + y div 16),
          btoa_char ((y mod 16) * 4 + z div 64), btoa_char (z mod 64)] @ btoa rest)"

definition utf8 :: "char \<Rightarrow> nat list" where
  \<comment> \<open>UTF-8 bytes of a code point below 256\<close>
  "utf8 c = (let n = (of_char c :: nat) in if n < 128 then [n] else [192 + n div 64, 128 + n mod 64])"

definition urlencode_byte :: "nat \<Rightarrow> string" where
  \<comment> \<open>the \<open>application/x-www-form-urlencoded\<close> byte serializer\<close>
  "urlencode_byte n =
     (if n = 32 then ''+''
      else if (48 \<le> n \<and> n \<le> 57) \<or> (65 \<le> n \<and> n \<le> 90) \<or> (97 \<le> n \<and> n \<le> 122)
              \<or> n \<in> {42, 45, 46, 95}
      then [char_of n]
      else [CHR ''%'', hex_upper (n div 16), hex_upper (n mod 16)])"

definition urlencode :: "string \<Rightarrow> string" where
  "urlencode s = concat (map (\<lambda>c. concat (map urlencode_byte (utf8 c))) s)"

definition encodeURIComponent :: "string \<Rightarrow> string" where
  \<comment> \<open>letters, digits and \<open>- _ . ! ~ * ' ( )\<close> stay; every other UTF-8 byte is percent-encoded\<close>
  "encodeURIComponent s =
     concat (map (\<lambda>c. concat (map (\<lambda>n.
        if (48 \<le> n \<and> n \<le> 57) \<or> (65 \<le> n \<and> n \<le> 90) \<or> (97 \<le> n \<and> n \<le> 122)
           \<or> n \<in> {45, 95, 46, 33, 126, 42, 39, 40, 41}
        then [char_of n]
        else [CHR ''%'', hex_upper (n div 16), hex_upper (n mod 16)]) (utf8 c))) s)"

type_synonym URLSearchParams = "(string \<times> string) list"

definition URLSearchParams_set :: "string \<Rightarrow> string \<Rightarrow> URLSearchParams \<Rightarrow> URLSearchParams" where
  \<comment> \<open>\<open>set\<close>: the first pair of that name takes the value and the others go; a new name is appended\<close>
  "URLSearchParams_set k v ps =
     (if k \<in> fst ` set ps
      then takeWhile (\<lambda>p. fst p \<noteq> k) ps @ [(k, v)]
           @ filter (\<lambda>p. fst p \<noteq> k) (tl (dropWhile (\<lambda>p. fst p \<noteq> k) ps))
      else ps @ [(k, v)])"

definition URLSearchParams_toString :: "URLSearchParams \<Rightarrow> string" where
  "URLSearchParams_toString ps = js_join ''&'' (map (\<lambda>(k, v). urlencode k @ ''='' @ urlencode v) ps)"


definition set_if :: "string \<Rightarrow> string option \<Rightarrow> URLSearchParams \<Rightarrow> URLSearchParams" where
  \<comment> \<open>\<open>if (v) queryParams.set(k, v)\<close>\<close>
  "set_if k v ps = (if truthy_str v then URLSearchParams_set k (the v) ps else ps)"

definition set_num_if :: "string \<Rightarrow> int option \<Rightarrow> URLSearchParams \<Rightarrow> URLSearchParams" where
  \<comment> \<open>\<open>if (n) queryParams.set(k, String(n))\<close>\<close>
  "set_num_if k n ps = (if truthy_num n then URLSearchParams_set k (show_int (the n)) ps else ps)"


section \<open>Tenant credentials (types/env.ts)\<close>

record Request =
  pathname :: string
  http_method :: string
  headers_get :: "string \<Rightarrow> string option"
    \<comment> \<open>\<open>request.headers.get(name)\<close>; \<open>None\<close> is \<open>null\<close>\<close>

record TenantCredentials =
  username :: string
  secret :: string
  projectId :: string
  projectToken :: "string option"
  euResident :: "bool option"

text \<open>
  Modelled from the spec: the error classes of utils/errors.ts are not among the sources. An
  error is recorded with the arguments its constructor is called with: the message, and the
  HTTP status (\<open>ApiError\<close>, optional) or the retry-after number (\<open>RateLimitError\<close>).
  \<open>Error\<close> is the built-in class; \<open>SyntaxError\<close> and \<open>TypeError\<close> are what the runtime throws.
\<close>

datatype error =
    Error string
  | ApiError string "nat option"
  | AuthenticationError string
  | RateLimitError string parsed_number
  | SyntaxError
  | TypeError

definition or_empty :: "string option \<Rightarrow> string" where
  \<comment> \<open>\<open>v || ''\<close>\<close>
  "or_empty v = (if truthy_str v then the v else [])"

definition or_undefined :: "string option \<Rightarrow> string option" where
  \<comment> \<open>\<open>v || undefined\<close>\<close>
  "or_undefined v = (if truthy_str v then v else None)"

definition parseTenantCredentials :: "Request \<Rightarrow> TenantCredentials" where
  "parseTenantCredentials request =
     (let headers = headers_get request
      in \<lparr> username = or_empty (headers ''X-Mixpanel-Service-Account-Username''),
           secret = or_empty (headers ''X-Mixpanel-Service-Account-Secret''),
           projectId = or_empty (headers ''X-Mixpanel-Project-Id''),
           projectToken = or_undefined (headers ''X-Mixpanel-Project-Token''),
           euResident = Some (map_option toLowerCase (headers ''X-Mixpanel-EU-Resident'')
                               = Some ''true'') \<rparr>)"

definition validateCredentials :: "TenantCredentials \<Rightarrow> error + unit" where
  "validateCredentials credentials =
     (if username credentials = [] \<or> secret credentials = [] then
        Inl (Error ''Missing credentials. Provide X-Mixpanel-Service-Account-Username and X-Mixpanel-Service-Account-Secret headers.'')
      else if projectId credentials = [] then
        Inl (Error ''Missing project ID. Provide X-Mixpanel-Project-Id header.'')
      else Inr ())"


definition UNAUTHORIZED_REQUIRED :: "string list" where
  "UNAUTHORIZED_REQUIRED =
     [''X-Mixpanel-Service-Account-Username'', ''X-Mixpanel-Service-Account-Secret'',
      ''X-Mixpanel-Project-Id'']"

datatype 'r worker_response =
    Health
  | Unauthorized string "string list"
      \<comment> \<open>status 401: the \<open>message\<close> and the \<open>required_headers\<close> of the body\<close>
  | Handled 'r
  | SseUnavailable
  | ServerInfo


section \<open>HTTP\<close>

record http_request =
  req_url :: string
  req_method :: "string option"
  req_headers :: "(string \<times> string) list"
  req_body :: "string option"

record http_response =
  resp_status :: nat
  resp_header :: "string \<Rightarrow> string option"
    \<comment> \<open>\<open>response.headers.get(name)\<close>\<close>
  resp_text :: string
    \<comment> \<open>\<open>await response.text()\<close>\<close>
  resp_json :: "json option"
    \<comment> \<open>\<open>await response.json()\<close>; \<open>None\<close> when the body is not JSON and the call rejects\<close>

type_synonym fetch = "http_request \<Rightarrow> error + http_response"
  \<comment> \<open>the network: a response, or a rejection that the caller lets through\<close>

definition ok :: "http_response \<Rightarrow> bool" where
  "ok response = (200 \<le> resp_status response \<and> resp_status response \<le> 299)"

definition worker_fetch ::
  "(TenantCredentials \<Rightarrow> Request \<Rightarrow> 'r \<times> http_request list) \<Rightarrow> Request
     \<Rightarrow> 'r worker_response \<times> http_request list" where
  \<comment> \<open>the Worker's \<open>fetch\<close> handler (index.ts); \<open>serve\<close> is the MCP handler built on the client
      of the validated credentials, with the HTTP calls it issues\<close>
  "worker_fetch serve request =
     (if pathname request = ''/health'' then (Health, [])
      else if pathname request = ''/mcp'' \<and> http_method request = ''POST'' then
        (let credentials = parseTenantCredentials request
         in case validateCredentials credentials of
              Inl (Error message) \<Rightarrow> (Unauthorized message UNAUTHORIZED_REQUIRED, [])
            | Inl _ \<Rightarrow> (Unauthorized ''Invalid credentials'' UNAUTHORIZED_REQUIRED, [])
            | Inr _ \<Rightarrow> (case serve credentials request of (r, calls) \<Rightarrow> (Handled r, calls)))
      else if pathname request = ''/sse'' then (SseUnavailable, [])
      else (ServerInfo, []))"


section \<open>The API client (client.ts)\<close>

definition DATA_API_URL :: string where "DATA_API_URL = ''https://data.mixpanel.com/api/2.0''"
definition MIXPANEL_API_URL :: string where "MIXPANEL_API_URL = ''https://mixpanel.com/api/2.0''"
definition EU_DATA_API_URL :: string where "EU_DATA_API_URL = ''https://data-eu.mixpanel.com/api/2.0''"
definition EU_MIXPANEL_API_URL :: string where "EU_MIXPANEL_API_URL = ''https://eu.mixpanel.com/api/2.0''"
definition INGESTION_API_URL :: string where "INGESTION_API_URL = ''https://api.mixpanel.com''"
definition EU_INGESTION_API_URL :: string where "EU_INGESTION_API_URL = ''https://api-eu.mixpanel.com''"
definition APP_API_URL :: string where "APP_API_URL = ''https://mixpanel.com/api/app''"
definition EU_APP_API_URL :: string where "EU_APP_API_URL = ''https://eu.mixpanel.com/api/app''"

record ExportedEvent =
  ee_event :: "json option"
  ee_properties :: "json option"
  ee_time :: "json option"
  ee_distinctId :: "json option"

datatype result =
    Parsed json
  | Raw string
  | Status nat
  | Success
  | StatusOk
  | Events "ExportedEvent list"
  | Connection bool string
  | Shaped jsvalue

type_synonym outcome = "(error + result) \<times> http_request list"
  \<comment> \<open>what an operation throws or returns, and the HTTP calls it issued, in order\<close>

definition getAuthHeaders :: "TenantCredentials \<Rightarrow> (string \<times> string) list" where
  "getAuthHeaders c =
     (let credentials = btoa (username c @ '':'' @ secret c)
      in [(''Authorization'', ''Basic '' @ credentials),
          (''Content-Type'', ''application/json''),
          (''Accept'', ''application/json'')])"

definition getDataApiUrl :: "TenantCredentials \<Rightarrow> string" where
  "getDataApiUrl c = (if euResident c = Some True then EU_DATA_API_URL else DATA_API_URL)"

definition getMixpanelApiUrl :: "TenantCredentials \<Rightarrow> string" where
  "getMixpanelApiUrl c = (if euResident c = Some True then EU_MIXPANEL_API_URL else MIXPANEL_API_URL)"

definition getIngestionApiUrl :: "TenantCredentials \<Rightarrow> string" where
  "getIngestionApiUrl c = (if euResident c = Some True then EU_INGESTION_API_URL else INGESTION_API_URL)"

definition getAppApiUrl :: "TenantCredentials \<Rightarrow> string" where
  "getAppApiUrl c = (if euResident c = Some True then EU_APP_API_URL else APP_API_URL)"

definition await_fetch :: "fetch \<Rightarrow> http_request \<Rightarrow> (http_response \<Rightarrow> error + result) \<Rightarrow> outcome" where
  \<comment> \<open>\<open>const response = await fetch(...)\<close> followed by the rest of the method\<close>
  "await_fetch fetch req k =
     (case fetch req of Inl e \<Rightarrow> (Inl e, [req]) | Inr response \<Rightarrow> (k response, [req]))"

record RequestInit =
  init_method :: "string option"
  init_headers :: "(string \<times> string) list option"
  init_body :: "string option"

definition no_init :: RequestInit where
  "no_init = \<lparr> init_method = None, init_headers = None, init_body = None \<rparr>"

definition request_response :: "http_response \<Rightarrow> error + result" where
  "request_response response =
     (if resp_status response = 429 then
        (let retryAfter = resp_header response ''Retry-After''
         in Inl (RateLimitError ''Rate limit exceeded''
                  (if truthy_str retryAfter then parseInt (the retryAfter) else Num 60)))
      else if resp_status response = 401 \<or> resp_status response = 403 then
        Inl (AuthenticationError ''Invalid credentials'')
      else if \<not> ok response then
        (let errorText = resp_text response
         in Inl (ApiError (''API error: '' @ show_nat (resp_status response) @ '' - '' @ errorText)
                  (Some (resp_status response))))
      else
        (let contentType = resp_header response ''content-type''
         in if (case contentType of None \<Rightarrow> False | Some ct \<Rightarrow> sublist ''application/json'' ct)
            then (case resp_json response of None \<Rightarrow> Inl SyntaxError | Some j \<Rightarrow> Inr (Parsed j))
            else Inr (Raw (resp_text response))))"

definition request :: "TenantCredentials \<Rightarrow> fetch \<Rightarrow> string \<Rightarrow> string \<Rightarrow> RequestInit \<Rightarrow> outcome" where
  "request c fetch baseUrl endpoint options =
     (let url = baseUrl @ endpoint
      in await_fetch fetch
           \<lparr> req_url = url, req_method = init_method options,
             req_headers = js_object (getAuthHeaders c
                             @ (case init_headers options of None \<Rightarrow> [] | Some h \<Rightarrow> h)),
             req_body = init_body options \<rparr>
           request_response)"

definition requestIngestion :: "TenantCredentials \<Rightarrow> fetch \<Rightarrow> string \<Rightarrow> json \<Rightarrow> bool \<Rightarrow> outcome" where
  "requestIngestion c fetch endpoint data useProjectToken =
     (let url = getIngestionApiUrl c @ endpoint;
          headers = [(''Content-Type'', ''application/json''), (''Accept'', ''application/json'')];
          headers = (if \<not> useProjectToken
                     then obj_put ''Authorization'' (''Basic '' @ btoa (username c @ '':'' @ secret c)) headers
                     else headers)
      in await_fetch fetch
           \<lparr> req_url = url, req_method = Some ''POST'', req_headers = headers,
             req_body = Some (JSON_stringify data) \<rparr>
           (\<lambda>response.
              if resp_status response = 429 then Inl (RateLimitError ''Rate limit exceeded'' (Num 60))
              else if \<not> ok response then
                (let errorText = resp_text response
                 in Inl (ApiError (''Ingestion API error: '' @ show_nat (resp_status response)
                                    @ '' - '' @ errorText) (Some (resp_status response))))
              else (case resp_json response of None \<Rightarrow> Inl SyntaxError | Some j \<Rightarrow> Inr (Parsed j))))"

definition post_status :: "fetch \<Rightarrow> string \<Rightarrow> json \<Rightarrow> outcome" where
  \<comment> \<open>the tail shared by the tracking, profile, group and identity methods: \<open>fetch(url, {method:
      'POST', headers: {'Content-Type': 'application/json'}, body: JSON.stringify(payload)})\<close> and
      \<open>return { status: response.ok ? 1 : 0 }\<close>\<close>
  "post_status fetch url payload =
     await_fetch fetch
       \<lparr> req_url = url, req_method = Some ''POST'',
         req_headers = [(''Content-Type'', ''application/json'')],
         req_body = Some (JSON_stringify payload) \<rparr>
       (\<lambda>response. Inr (Status (if ok response then 1 else 0)))"

definition data_of :: "result \<Rightarrow> json" where
  \<comment> \<open>what \<open>request\<close> resolved to: the parsed body, or the body text as a string\<close>
  "data_of r = (case r of Parsed j \<Rightarrow> j | Raw t \<Rightarrow> JStr t | _ \<Rightarrow> JNull)"

definition reshaped :: "outcome \<Rightarrow> (json \<Rightarrow> error + jsvalue) \<Rightarrow> outcome" where
  \<comment> \<open>\<open>const data = await this.request(...)\<close> followed by a \<open>return\<close> that reads \<open>data\<close>\<close>
  "reshaped out f =
     (case out of
        (Inl e, calls) \<Rightarrow> (Inl e, calls)
      | (Inr r, calls) \<Rightarrow> ((case f (data_of r) of Inl e \<Rightarrow> Inl e | Inr v \<Rightarrow> Inr (Shaped v)), calls))"

definition succeeded :: "outcome \<Rightarrow> outcome" where
  \<comment> \<open>\<open>await this.request(...); return { success: true }\<close>\<close>
  "succeeded out = (case out of (Inl e, calls) \<Rightarrow> (Inl e, calls) | (Inr _, calls) \<Rightarrow> (Inr Success, calls))"

definition testConnection :: "(error \<Rightarrow> string) \<Rightarrow> TenantCredentials \<Rightarrow> fetch \<Rightarrow> outcome" where
  \<comment> \<open>\<open>formatError\<close> of utils/errors.ts is a parameter\<close>
  "testConnection formatError c fetch =
     (case request c fetch (getMixpanelApiUrl c) (''/engage?project_id='' @ projectId c)
             \<lparr> init_method = Some ''POST'', init_headers = None,
               init_body = Some (JSON_stringify (JObj [(''page'', JNum 0), (''limit'', JNum 1)])) \<rparr>
      of (Inl e, calls) \<Rightarrow> (Inr (Connection False (formatError e)), calls)
       | (Inr _, calls) \<Rightarrow> (Inr (Connection True ''Connected to Mixpanel''), calls))"


subsection \<open>Query API: insights\<close>

record InsightsParams =
  qi_fromDate :: string
  qi_toDate :: string
  qi_event :: "string option"
  qi_groupBy :: "string list option"
  qi_where :: "string option"
  qi_interval :: "string option"

definition queryInsights :: "TenantCredentials \<Rightarrow> fetch \<Rightarrow> InsightsParams \<Rightarrow> outcome" where
  "queryInsights c fetch params =
     (let queryParams = [(''project_id'', projectId c), (''from_date'', qi_fromDate params),
                         (''to_date'', qi_toDate params)];
          queryParams = (if truthy_str (qi_event params)
                         then URLSearchParams_set ''event''
                                (JSON_stringify (JArr [JStr (the (qi_event params))])) queryParams
                         else queryParams);
          queryParams = (if truthy_str (qi_interval params)
                         then URLSearchParams_set ''interval'' (the (qi_interval params)) queryParams
                         else queryParams);
          queryParams = (if truthy_str (qi_where params)
                         then URLSearchParams_set ''where'' (the (qi_where params)) queryParams
                         else queryParams);
          queryParams = (case qi_groupBy params of
                           Some groupBy \<Rightarrow> URLSearchParams_set ''on''
                                            (JSON_stringify (JArr (map JStr groupBy))) queryParams
                         | None \<Rightarrow> queryParams)
      in request c fetch (getMixpanelApiUrl c)
           (''/insights?'' @ URLSearchParams_toString queryParams) no_init)"

subsection \<open>Data export API\<close>

record ExportParams =
  ex_fromDate :: string
  ex_toDate :: string
  ex_event :: "string list option"
  ex_where :: "string option"
  ex_limit :: "int option"

definition js_trim :: "string \<Rightarrow> string" where
  "js_trim s = rev (dropWhile is_js_space (rev (dropWhile is_js_space s)))"

definition js_split :: "char \<Rightarrow> string \<Rightarrow> string list" where
  \<comment> \<open>\<open>split\<close> at a one-character separator: the pieces between the separators, at least one\<close>
  "js_split sep s = foldr (\<lambda>x acc. if x = sep then [] # acc else (x # hd acc) # tl acc) s [[]]"

definition js_prop :: "json \<Rightarrow> string \<Rightarrow> error + json option" where
  \<comment> \<open>\<open>v.name\<close> for a name that no built-in prototype defines: a TypeError on \<open>null\<close>, the own
      property of an object, \<open>undefined\<close> (\<open>None\<close>) otherwise\<close>
  "js_prop v name = (case v of JNull \<Rightarrow> Inl TypeError | JObj ps \<Rightarrow> Inr (map_of ps name) | _ \<Rightarrow> Inr None)"

definition export_line :: "(string \<Rightarrow> json option) \<Rightarrow> string \<Rightarrow> error + ExportedEvent" where
  "export_line JSON_parse line =
     (case JSON_parse line of
        None \<Rightarrow> Inl SyntaxError
      | Some parsed \<Rightarrow>
          (case js_prop parsed ''event'' of
             Inl e \<Rightarrow> Inl e
           | Inr event \<Rightarrow>
               (case js_prop parsed ''properties'' of
                  Inl e \<Rightarrow> Inl e
                | Inr None \<Rightarrow> Inl TypeError
                | Inr (Some properties) \<Rightarrow>
                    (case js_prop properties ''time'' of
                       Inl e \<Rightarrow> Inl e
                     | Inr time \<Rightarrow>
                         (case js_prop properties ''distinct_id'' of
                            Inl e \<Rightarrow> Inl e
                          | Inr distinct_id \<Rightarrow>
                              Inr \<lparr> ee_event = event, ee_properties = Some properties,
                                    ee_time = time, ee_distinctId = distinct_id \<rparr>)))))"

fun export_lines :: "(string \<Rightarrow> json option) \<Rightarrow> string list \<Rightarrow> error + ExportedEvent list" where
  "export_lines JSON_parse [] = Inr []"
| "export_lines JSON_parse (line # lines) =
     (case export_line JSON_parse line of
        Inl e \<Rightarrow> Inl e
      | Inr ev \<Rightarrow> (case export_lines JSON_parse lines of Inl e \<Rightarrow> Inl e | Inr evs \<Rightarrow> Inr (ev # evs)))"

definition exportEvents ::
  "(string \<Rightarrow> json option) \<Rightarrow> TenantCredentials \<Rightarrow> fetch \<Rightarrow> ExportParams \<Rightarrow> outcome" where
  \<comment> \<open>\<open>JSON.parse\<close> is a parameter: \<open>None\<close> is its SyntaxError\<close>
  "exportEvents JSON_parse c fetch params =
     (let queryParams = [(''project_id'', projectId c), (''from_date'', ex_fromDate params),
                         (''to_date'', ex_toDate params)];
          queryParams = (case ex_event params of
                           Some event \<Rightarrow> URLSearchParams_set ''event''
                                          (JSON_stringify (JArr (map JStr event))) queryParams
                         | None \<Rightarrow> queryParams);
          queryParams = (if truthy_str (ex_where params)
                         then URLSearchParams_set ''where'' (the (ex_where params)) queryParams
                         else queryParams);
          queryParams = (case ex_limit params of
                           Some limit \<Rightarrow> if limit \<noteq> 0
                                          then URLSearchParams_set ''limit'' (show_int limit) queryParams
                                          else queryParams
                         | None \<Rightarrow> queryParams)
      in await_fetch fetch
           \<lparr> req_url = getDataApiUrl c @ ''/export?'' @ URLSearchParams_toString queryParams,
             req_method = None, req_headers = getAuthHeaders c, req_body = None \<rparr>
           (\<lambda>response.
              if resp_status response = 429 then Inl (RateLimitError ''Rate limit exceeded'' (Num 60))
              else if \<not> ok response then
                (let errorText = resp_text response
                 in Inl (ApiError (''Export failed: '' @ show_nat (resp_status response)
                                    @ '' - '' @ errorText) (Some (resp_status response))))
              else
                (let text = resp_text response;
                     lines = filter (\<lambda>l. l \<noteq> []) (js_split LF (js_trim text))
                 in case export_lines JSON_parse lines of
                      Inl e \<Rightarrow> Inl e
                    | Inr evs \<Rightarrow> Inr (Events evs))))"

subsection \<open>Ingestion API: events\<close>

record TrackEventParams =
  te_event :: string
  te_distinctId :: string
  te_properties :: "(string \<times> json) list option"
  te_time :: "int option"

record EventItem =
  ev_event :: string
  ev_properties :: "(string \<times> json) list"

definition trackEvent :: "TenantCredentials \<Rightarrow> int \<Rightarrow> fetch \<Rightarrow> TrackEventParams \<Rightarrow> outcome" where
  \<comment> \<open>\<open>now\<close> is the reading of \<open>Date.now()\<close>, in milliseconds\<close>
  "trackEvent c now fetch params =
     (if \<not> truthy_str (projectToken c) then
        (Inl (ApiError ''Project token required for tracking events. Set X-Mixpanel-Project-Token header.'' None), [])
      else
        (let token = the (projectToken c);
             data = JArr [JObj (js_object
                      [(''event'', JStr (te_event params)),
                       (''properties'', JObj (js_object
                          ([(''distinct_id'', JStr (te_distinctId params)),
                            (''token'', JStr token),
                            (''time'', JNum (case te_time params of
                                               Some t \<Rightarrow> if t \<noteq> 0 then t else now div 1000
                                             | None \<Rightarrow> now div 1000))]
                           @ (case te_properties params of None \<Rightarrow> [] | Some ps \<Rightarrow> ps))))])]
         in post_status fetch (getIngestionApiUrl c @ ''/track'') data))"

definition trackEvents :: "TenantCredentials \<Rightarrow> (nat \<Rightarrow> int) \<Rightarrow> fetch \<Rightarrow> EventItem list \<Rightarrow> outcome" where
  \<comment> \<open>\<open>now i\<close> is the reading of \<open>Date.now()\<close> while the event of index \<open>i\<close> is mapped\<close>
  "trackEvents c now fetch events =
     (if \<not> truthy_str (projectToken c) then
        (Inl (ApiError ''Project token required for tracking events. Set X-Mixpanel-Project-Token header.'' None), [])
      else
        (let token = the (projectToken c);
             data = JArr (map (\<lambda>(i, e). JObj (js_object
                      [(''event'', JStr (ev_event e)),
                       (''properties'', JObj (js_object
                          (ev_properties e
                           @ [(''token'', JStr token),
                              (''time'', (case map_of (ev_properties e) ''time'' of
                                            Some t \<Rightarrow> if truthy t then t else JNum (now i div 1000)
                                          | None \<Rightarrow> JNum (now i div 1000)))])))]))
                      (enumerate 0 events))
         in post_status fetch (getIngestionApiUrl c @ ''/track'') data))"

definition importEvents :: "TenantCredentials \<Rightarrow> fetch \<Rightarrow> EventItem list \<Rightarrow> outcome" where
  "importEvents c fetch events =
     (if \<not> truthy_str (projectToken c) then
        (Inl (ApiError ''Project token required for importing events. Set X-Mixpanel-Project-Token header.'' None), [])
      else
        (let token = the (projectToken c);
             data = JArr (map (\<lambda>e. JObj (js_object
                      [(''event'', JStr (ev_event e)),
                       (''properties'', JObj (js_object
                          (ev_properties e @ [(''token'', JStr token)])))]))
                      events)
         in requestIngestion c fetch ''/import'' data True))"

subsection \<open>Ingestion API: user profiles\<close>

definition engageRequest :: "TenantCredentials \<Rightarrow> fetch \<Rightarrow> string \<Rightarrow> string \<Rightarrow> json \<Rightarrow> outcome" where
  "engageRequest c fetch operation distinctId data =
     (if \<not> truthy_str (projectToken c) then
        (Inl (ApiError ''Project token required for profile operations. Set X-Mixpanel-Project-Token header.'' None), [])
      else
        (let token = the (projectToken c);
             payload = JArr [JObj (js_object
                         [(''$token'', JStr token),
                          (''$distinct_id'', JStr distinctId),
                          (operation, data)])]
         in post_status fetch (getIngestionApiUrl c @ ''/engage'') payload))"

definition setProfileProperties :: "TenantCredentials \<Rightarrow> fetch \<Rightarrow> string \<Rightarrow> (string \<times> json) list \<Rightarrow> outcome" where
  "setProfileProperties c fetch distinctId properties =
     engageRequest c fetch ''$set'' distinctId (JObj properties)"

definition setProfilePropertiesOnce :: "TenantCredentials \<Rightarrow> fetch \<Rightarrow> string \<Rightarrow> (string \<times> json) list \<Rightarrow> outcome" where
  "setProfilePropertiesOnce c fetch distinctId properties =
     engageRequest c fetch ''$set_once'' distinctId (JObj properties)"

definition incrementProfileProperties :: "TenantCredentials \<Rightarrow> fetch \<Rightarrow> string \<Rightarrow> (string \<times> int) list \<Rightarrow> outcome" where
  "incrementProfileProperties c fetch distinctId properties =
     engageRequest c fetch ''$add'' distinctId (JObj (map (\<lambda>(k, n). (k, JNum n)) properties))"

definition appendToProfileList :: "TenantCredentials \<Rightarrow> fetch \<Rightarrow> string \<Rightarrow> string \<Rightarrow> json list \<Rightarrow> outcome" where
  "appendToProfileList c fetch distinctId property values =
     engageRequest c fetch ''$append'' distinctId (JObj (js_object [(property, JArr values)]))"

definition removeFromProfileList :: "TenantCredentials \<Rightarrow> fetch \<Rightarrow> string \<Rightarrow> string \<Rightarrow> json list \<Rightarrow> outcome" where
  "removeFromProfileList c fetch distinctId property values =
     engageRequest c fetch ''$remove'' distinctId (JObj (js_object [(property, JArr values)]))"

definition unionToProfileList :: "TenantCredentials \<Rightarrow> fetch \<Rightarrow> string \<Rightarrow> (string \<times> json list) list \<Rightarrow> outcome" where
  "unionToProfileList c fetch distinctId properties =
     engageRequest c fetch ''$union'' distinctId (JObj (map (\<lambda>(k, vs). (k, JArr vs)) properties))"

definition unsetProfileProperties :: "TenantCredentials \<Rightarrow> fetch \<Rightarrow> string \<Rightarrow> string list \<Rightarrow> outcome" where
  "unsetProfileProperties c fetch distinctId properties =
     engageRequest c fetch ''$unset'' distinctId (JArr (map JStr properties))"

definition deleteProfile :: "TenantCredentials \<Rightarrow> fetch \<Rightarrow> string \<Rightarrow> outcome" where
  "deleteProfile c fetch distinctId =
     (if \<not> truthy_str (projectToken c) then
        (Inl (ApiError ''Project token required for profile operations. Set X-Mixpanel-Project-Token header.'' None), [])
      else
        (let token = the (projectToken c);
             payload = JArr [JObj (js_object
                         [(''$token'', JStr token),
                          (''$distinct_id'', JStr distinctId),
                          (''$delete'', JStr [])])]
         in post_status fetch (getIngestionApiUrl c @ ''/engage'') payload))"

subsection \<open>Ingestion API: group profiles\<close>

definition groupRequest :: "TenantCredentials \<Rightarrow> fetch \<Rightarrow> string \<Rightarrow> string \<Rightarrow> string \<Rightarrow> json \<Rightarrow> outcome" where
  "groupRequest c fetch operation groupKey groupId data =
     (if \<not> truthy_str (projectToken c) then
        (Inl (ApiError ''Project token required for group operations. Set X-Mixpanel-Project-Token header.'' None), [])
      else
        (let token = the (projectToken c);
             payload = JArr [JObj (js_object
                         [(''$token'', JStr token),
                          (''$group_key'', JStr groupKey),
                          (''$group_id'', JStr groupId),
                          (operation, data)])]
         in post_status fetch (getIngestionApiUrl c @ ''/groups'') payload))"

definition setGroupProperties :: "TenantCredentials \<Rightarrow> fetch \<Rightarrow> string \<Rightarrow> string \<Rightarrow> (string \<times> json) list \<Rightarrow> outcome" where
  "setGroupProperties c fetch groupKey groupId properties =
     groupRequest c fetch ''$set'' groupKey groupId (JObj properties)"

definition setGroupPropertiesOnce :: "TenantCredentials \<Rightarrow> fetch \<Rightarrow> string \<Rightarrow> string \<Rightarrow> (string \<times> json) list \<Rightarrow> outcome" where
  "setGroupPropertiesOnce c fetch groupKey groupId properties =
     groupRequest c fetch ''$set_once'' groupKey groupId (JObj properties)"

definition unsetGroupProperties :: "TenantCredentials \<Rightarrow> fetch \<Rightarrow> string \<Rightarrow> string \<Rightarrow> string list \<Rightarrow> outcome" where
  "unsetGroupProperties c fetch groupKey groupId properties =
     groupRequest c fetch ''$unset'' groupKey groupId (JArr (map JStr properties))"

definition deleteGroup :: "TenantCredentials \<Rightarrow> fetch \<Rightarrow> string \<Rightarrow> string \<Rightarrow> outcome" where
  "deleteGroup c fetch groupKey groupId =
     (if \<not> truthy_str (projectToken c) then
        (Inl (ApiError ''Project token required for group operations. Set X-Mixpanel-Project-Token header.'' None), [])
      else
        (let token = the (projectToken c);
             payload = JArr [JObj (js_object
                         [(''$token'', JStr token),
                          (''$group_key'', JStr groupKey),
                          (''$group_id'', JStr groupId),
                          (''$delete'', JStr [])])]
         in post_status fetch (getIngestionApiUrl c @ ''/groups'') payload))"

subsection \<open>Ingestion API: identity management\<close>

definition createIdentity :: "TenantCredentials \<Rightarrow> fetch \<Rightarrow> string \<Rightarrow> string \<Rightarrow> outcome" where
  "createIdentity c fetch distinctId anonId =
     (if \<not> truthy_str (projectToken c) then
        (Inl (ApiError ''Project token required for identity operations. Set X-Mixpanel-Project-Token header.'' None), [])
      else
        (let token = the (projectToken c);
             payload = JObj (js_object
                         [(''event'', JStr ''$identify''),
                          (''properties'', JObj (js_object
                             [(''$identified_id'', JStr distinctId),
                              (''$anon_id'', JStr anonId),
                              (''token'', JStr token)]))])
         in post_status fetch (getIngestionApiUrl c @ ''/track'') (JArr [payload])))"

definition createAlias :: "TenantCredentials \<Rightarrow> fetch \<Rightarrow> string \<Rightarrow> string \<Rightarrow> outcome" where
  "createAlias c fetch distinctId alias =
     (if \<not> truthy_str (projectToken c) then
        (Inl (ApiError ''Project token required for alias operations. Set X-Mixpanel-Project-Token header.'' None), [])
      else
        (let token = the (projectToken c);
             payload = JObj (js_object
                         [(''event'', JStr ''$create_alias''),
                          (''properties'', JObj (js_object
                             [(''distinct_id'', JStr distinctId),
                              (''alias'', JStr alias),
                              (''token'', JStr token)]))])
         in post_status fetch (getIngestionApiUrl c @ ''/track'') (JArr [payload])))"

definition mergeIdentities :: "TenantCredentials \<Rightarrow> fetch \<Rightarrow> string \<Rightarrow> string \<Rightarrow> outcome" where
  "mergeIdentities c fetch distinctId1 distinctId2 =
     (if \<not> truthy_str (projectToken c) then
        (Inl (ApiError ''Project token required for merge operations. Set X-Mixpanel-Project-Token header.'' None), [])
      else
        (let token = the (projectToken c);
             payload = JObj (js_object
                         [(''event'', JStr ''$merge''),
                          (''properties'', JObj (js_object
                             [(''$distinct_ids'', JArr [JStr distinctId1, JStr distinctId2]),
                              (''token'', JStr token)]))])
         in post_status fetch (getIngestionApiUrl c @ ''/track'') (JArr [payload])))"


subsection \<open>Management API: lookup tables\<close>

definition replace_quotes :: "string \<Rightarrow> string" where
  \<comment> \<open>\<open>str.replace(/"/g, '""')\<close>\<close>
  "replace_quotes str = concat (map (\<lambda>ch. if ch = DQ then [DQ, DQ] else [ch]) str)"

datatype row_member = Absent | Own json | Inherited string
  \<comment> \<open>what \<open>row[h]\<close> evaluates to: \<open>undefined\<close>, the value of the row's own key, or a member
      that the row inherits from \<open>Object.prototype\<close> (a function such as \<open>toString\<close>, or the
      prototype itself under \<open>__proto__\<close>), kept as the text \<open>String()\<close> makes of it\<close>

definition row_get :: "(string \<Rightarrow> string option) \<Rightarrow> (string \<times> json) list \<Rightarrow> string \<Rightarrow> row_member" where
  \<comment> \<open>\<open>row[h]\<close> on a plain object: the own key first, then \<open>Object.prototype\<close>. The prototype
      belongs to the engine: \<open>proto h\<close> is \<open>String(Object.prototype[h])\<close> for a name \<open>h\<close> that
      \<open>Object.prototype\<close> defines, and \<open>None\<close> for every other name\<close>
  "row_get proto row h =
     (case map_of row h of
        Some v \<Rightarrow> Own v
      | None \<Rightarrow> (case proto h of Some text \<Rightarrow> Inherited text | None \<Rightarrow> Absent))"

definition csv_value :: "row_member \<Rightarrow> string" where
  \<comment> \<open>one cell, from \<open>val = row[h]\<close>\<close>
  "csv_value val =
     (if val = Own JNull \<or> val = Absent then []
      else
        (let str = (case val of Own v \<Rightarrow> js_String v | Inherited text \<Rightarrow> text | Absent \<Rightarrow> [])
         in if CHR '','' \<in> set str \<or> DQ \<in> set str \<or> LF \<in> set str
            then [DQ] @ replace_quotes str @ [DQ]
            else str))"

definition csv_row :: "(string \<Rightarrow> string option) \<Rightarrow> string list \<Rightarrow> (string \<times> json) list \<Rightarrow> string" where
  "csv_row proto headers row = js_join '','' (map (\<lambda>h. csv_value (row_get proto row h)) headers)"

definition csvContent ::
  "(string \<Rightarrow> string option) \<Rightarrow> string list \<Rightarrow> (string \<times> json) list list \<Rightarrow> string" where
  "csvContent proto headers data =
     js_join [LF] (js_join '','' headers # map (csv_row proto headers) data)"

definition createOrReplaceLookupTable ::
  "(string \<Rightarrow> string option) \<Rightarrow> TenantCredentials \<Rightarrow> fetch \<Rightarrow> string
     \<Rightarrow> (string \<times> json) list list \<Rightarrow> outcome" where
  "createOrReplaceLookupTable proto c fetch tableName data =
     (case data of
        [] \<Rightarrow> (Inl (ApiError ''Lookup table data cannot be empty'' None), [])
      | first # _ \<Rightarrow>
          (let headers = map fst first
           in await_fetch fetch
                \<lparr> req_url = getIngestionApiUrl c @ ''/lookup_tables/'' @ tableName
                              @ ''?project_id='' @ projectId c,
                  req_method = Some ''PUT'',
                  req_headers = js_object (getAuthHeaders c @ [(''Content-Type'', ''text/csv'')]),
                  req_body = Some (csvContent proto headers data) \<rparr>
                (\<lambda>response.
                   if \<not> ok response then
                     (let errorText = resp_text response
                      in Inl (ApiError (''Failed to create lookup table: '' @ errorText)
                               (Some (resp_status response))))
                   else Inr StatusOk)))"

subsection \<open>GDPR API\<close>

record RetrievalOptions =
  dataType :: "string option"
  completionEmail :: "string option"

definition template :: "string option \<Rightarrow> string" where
  \<comment> \<open>a \<open>string | undefined\<close> inside a template literal\<close>
  "template v = (case v of None \<Rightarrow> ''undefined'' | Some s \<Rightarrow> s)"

definition createDataRetrieval ::
  "TenantCredentials \<Rightarrow> fetch \<Rightarrow> string list \<Rightarrow> RetrievalOptions option \<Rightarrow> outcome" where
  "createDataRetrieval c fetch distinctIds options =
     (let body = js_object [(''distinct_ids'', JArr (map JStr distinctIds))];
          body = (case options of
                    Some opts \<Rightarrow> if truthy_str (dataType opts)
                                  then obj_put ''data_type'' (JStr (the (dataType opts))) body
                                  else body
                  | None \<Rightarrow> body);
          body = (case options of
                    Some opts \<Rightarrow> if truthy_str (completionEmail opts)
                                  then obj_put ''completion_email'' (JStr (the (completionEmail opts))) body
                                  else body
                  | None \<Rightarrow> body)
      in request c fetch (getAppApiUrl c)
           (''/data-retrievals/v3.0?token='' @ template (projectToken c))
           \<lparr> init_method = Some ''POST'', init_headers = None,
             init_body = Some (JSON_stringify (JObj body)) \<rparr>)"

definition getDataRetrievalStatus :: "TenantCredentials \<Rightarrow> fetch \<Rightarrow> string \<Rightarrow> outcome" where
  "getDataRetrievalStatus c fetch requestId =
     request c fetch (getAppApiUrl c)
       (''/data-retrievals/v3.0/'' @ requestId @ ''?token='' @ template (projectToken c)) no_init"

definition createDataDeletion :: "TenantCredentials \<Rightarrow> fetch \<Rightarrow> string list \<Rightarrow> outcome" where
  "createDataDeletion c fetch distinctIds =
     request c fetch (getAppApiUrl c)
       (''/data-deletions/v3.0?token='' @ template (projectToken c))
       \<lparr> init_method = Some ''POST'', init_headers = None,
         init_body = Some (JSON_stringify (JObj (js_object
                       [(''distinct_ids'', JArr (map JStr distinctIds))]))) \<rparr>"

definition getDataDeletionStatus :: "TenantCredentials \<Rightarrow> fetch \<Rightarrow> string \<Rightarrow> outcome" where
  "getDataDeletionStatus c fetch requestId =
     request c fetch (getAppApiUrl c)
       (''/data-deletions/v3.0/'' @ requestId @ ''?token='' @ template (projectToken c)) no_init"

definition cancelDataDeletion :: "TenantCredentials \<Rightarrow> fetch \<Rightarrow> string \<Rightarrow> outcome" where
  "cancelDataDeletion c fetch requestId =
     succeeded
       (request c fetch (getAppApiUrl c)
          (''/data-deletions/v3.0/'' @ requestId @ ''?token='' @ template (projectToken c))
          \<lparr> init_method = Some ''DELETE'', init_headers = None, init_body = None \<rparr>)"

subsection \<open>Reading a parsed response\<close>

definition js_member :: "json \<Rightarrow> string \<Rightarrow> error + jsvalue" where
  \<comment> \<open>\<open>v.name\<close> for the names this client reads: a TypeError on \<open>null\<close>, the own property of
      an object, the built-in \<open>values\<close> of an array, \<open>undefined\<close> otherwise\<close>
  "js_member v name =
     (case v of
        JNull \<Rightarrow> Inl TypeError
      | JObj ps \<Rightarrow> Inr (case map_of ps name of None \<Rightarrow> Undefined | Some x \<Rightarrow> Json x)
      | JArr xs \<Rightarrow> Inr (if name = ''values'' then Native ''values'' else Undefined)
      | _ \<Rightarrow> Inr Undefined)"

definition member :: "jsvalue \<Rightarrow> string \<Rightarrow> error + jsvalue" where
  \<comment> \<open>the same on a value that may be \<open>undefined\<close>, where it is a TypeError too\<close>
  "member v name =
     (case v of
        Undefined \<Rightarrow> Inl TypeError
      | Json j \<Rightarrow> js_member j name
      | Object ps \<Rightarrow> Inr (case map_of ps name of None \<Rightarrow> Undefined | Some x \<Rightarrow> x)
      | _ \<Rightarrow> Inr Undefined)"

definition own :: "json \<Rightarrow> string \<Rightarrow> jsvalue" where
  \<comment> \<open>\<open>v.name\<close> where \<open>v\<close> has been read from before, so is not \<open>null\<close>\<close>
  "own v name = (case js_member v name of Inl e \<Rightarrow> Undefined | Inr x \<Rightarrow> x)"

definition chained :: "jsvalue \<Rightarrow> string \<Rightarrow> jsvalue" where
  \<comment> \<open>\<open>v?.name\<close>\<close>
  "chained v name = (case member v name of Inl e \<Rightarrow> Undefined | Inr x \<Rightarrow> x)"

definition first_of :: "jsvalue \<Rightarrow> error + jsvalue" where
  \<comment> \<open>\<open>v[0]\<close>\<close>
  "first_of v =
     (case v of
        Undefined \<Rightarrow> Inl TypeError
      | Json JNull \<Rightarrow> Inl TypeError
      | Json (JArr xs) \<Rightarrow> Inr (case xs of [] \<Rightarrow> Undefined | x # _ \<Rightarrow> Json x)
      | Json (JStr str) \<Rightarrow> Inr (case str of [] \<Rightarrow> Undefined | ch # _ \<Rightarrow> Json (JStr [ch]))
      | Json (JObj ps) \<Rightarrow> Inr (case map_of ps ''0'' of None \<Rightarrow> Undefined | Some x \<Rightarrow> Json x)
      | _ \<Rightarrow> Inr Undefined)"

definition Object_entries :: "jsvalue \<Rightarrow> error + (string \<times> jsvalue) list" where
  "Object_entries v =
     (case v of
        Undefined \<Rightarrow> Inl TypeError
      | Json JNull \<Rightarrow> Inl TypeError
      | Json (JObj ps) \<Rightarrow> Inr (map (\<lambda>(k, x). (k, Json x)) ps)
      | Json (JArr xs) \<Rightarrow> Inr (map (\<lambda>(i, x). (show_nat i, Json x)) (enumerate 0 xs))
      | Json (JStr str) \<Rightarrow> Inr (map (\<lambda>(i, ch). (show_nat i, Json (JStr [ch]))) (enumerate 0 str))
      | _ \<Rightarrow> Inr [])"

fun map_throwing :: "('a \<Rightarrow> error + 'b) \<Rightarrow> 'a list \<Rightarrow> error + 'b list" where
  \<comment> \<open>\<open>xs.map(f)\<close> where \<open>f\<close> may throw: the first error ends it\<close>
  "map_throwing f [] = Inr []"
| "map_throwing f (x # xs) =
     (case f x of
        Inl e \<Rightarrow> Inl e
      | Inr y \<Rightarrow> (case map_throwing f xs of Inl e \<Rightarrow> Inl e | Inr ys \<Rightarrow> Inr (y # ys)))"

subsection \<open>Query API: segmentation, funnels, retention\<close>

record SegmentationParams =
  sg_event :: string
  sg_fromDate :: string
  sg_toDate :: string
  sg_type :: "string option"
  sg_unit :: "string option"
  sg_where :: "string option"
  sg_on :: "string option"

record SegmentationOnParams =
  so_event :: string
  so_fromDate :: string
  so_toDate :: string
  so_on :: string
  so_type :: "string option"
  so_unit :: "string option"
  so_where :: "string option"
  so_buckets :: "int option"

definition querySegmentation :: "TenantCredentials \<Rightarrow> fetch \<Rightarrow> SegmentationParams \<Rightarrow> outcome" where
  "querySegmentation c fetch params =
     (let queryParams = [(''project_id'', projectId c), (''event'', sg_event params),
                         (''from_date'', sg_fromDate params), (''to_date'', sg_toDate params)];
          queryParams = set_if ''type'' (sg_type params) queryParams;
          queryParams = set_if ''unit'' (sg_unit params) queryParams;
          queryParams = set_if ''where'' (sg_where params) queryParams;
          queryParams = set_if ''on'' (sg_on params) queryParams
      in request c fetch (getMixpanelApiUrl c)
           (''/segmentation?'' @ URLSearchParams_toString queryParams) no_init)"

definition querySegmentationNumeric :: "TenantCredentials \<Rightarrow> fetch \<Rightarrow> SegmentationOnParams \<Rightarrow> outcome" where
  "querySegmentationNumeric c fetch params =
     (let queryParams = [(''project_id'', projectId c), (''event'', so_event params),
                         (''from_date'', so_fromDate params), (''to_date'', so_toDate params),
                         (''on'', so_on params)];
          queryParams = set_if ''type'' (so_type params) queryParams;
          queryParams = set_if ''unit'' (so_unit params) queryParams;
          queryParams = set_if ''where'' (so_where params) queryParams;
          queryParams = set_num_if ''buckets'' (so_buckets params) queryParams
      in request c fetch (getMixpanelApiUrl c)
           (''/segmentation/numeric?'' @ URLSearchParams_toString queryParams) no_init)"

definition querySegmentationSum :: "TenantCredentials \<Rightarrow> fetch \<Rightarrow> SegmentationOnParams \<Rightarrow> outcome" where
  "querySegmentationSum c fetch params =
     (let queryParams = [(''project_id'', projectId c), (''event'', so_event params),
                         (''from_date'', so_fromDate params), (''to_date'', so_toDate params),
                         (''on'', so_on params)];
          queryParams = set_if ''unit'' (so_unit params) queryParams;
          queryParams = set_if ''where'' (so_where params) queryParams
      in request c fetch (getMixpanelApiUrl c)
           (''/segmentation/sum?'' @ URLSearchParams_toString queryParams) no_init)"

definition querySegmentationAverage :: "TenantCredentials \<Rightarrow> fetch \<Rightarrow> SegmentationOnParams \<Rightarrow> outcome" where
  "querySegmentationAverage c fetch params =
     (let queryParams = [(''project_id'', projectId c), (''event'', so_event params),
                         (''from_date'', so_fromDate params), (''to_date'', so_toDate params),
                         (''on'', so_on params)];
          queryParams = set_if ''unit'' (so_unit params) queryParams;
          queryParams = set_if ''where'' (so_where params) queryParams
      in request c fetch (getMixpanelApiUrl c)
           (''/segmentation/average?'' @ URLSearchParams_toString queryParams) no_init)"

record FunnelParams =
  fu_fromDate :: string
  fu_toDate :: string
  fu_interval :: "string option"
  fu_length :: "int option"
  fu_lengthUnit :: "string option"

definition getFunnel :: "TenantCredentials \<Rightarrow> fetch \<Rightarrow> int \<Rightarrow> FunnelParams \<Rightarrow> outcome" where
  "getFunnel c fetch funnelId params =
     (let queryParams = [(''project_id'', projectId c), (''funnel_id'', show_int funnelId),
                         (''from_date'', fu_fromDate params), (''to_date'', fu_toDate params)];
          queryParams = set_if ''interval'' (fu_interval params) queryParams;
          queryParams = set_num_if ''length'' (fu_length params) queryParams;
          queryParams = set_if ''length_unit'' (fu_lengthUnit params) queryParams
      in request c fetch (getMixpanelApiUrl c)
           (''/funnels?'' @ URLSearchParams_toString queryParams) no_init)"

definition listFunnels :: "TenantCredentials \<Rightarrow> fetch \<Rightarrow> outcome" where
  "listFunnels c fetch =
     (let queryParams = [(''project_id'', projectId c)]
      in request c fetch (getMixpanelApiUrl c)
           (''/funnels/list?'' @ URLSearchParams_toString queryParams) no_init)"

record RetentionParams =
  rt_fromDate :: string
  rt_toDate :: string
  rt_bornEvent :: "string option"
  rt_event :: "string option"
  rt_retentionType :: "string option"
  rt_interval :: "int option"
  rt_intervalCount :: "int option"
  rt_unit :: "string option"

definition getRetention :: "TenantCredentials \<Rightarrow> fetch \<Rightarrow> RetentionParams \<Rightarrow> outcome" where
  "getRetention c fetch params =
     (let queryParams = [(''project_id'', projectId c), (''from_date'', rt_fromDate params),
                         (''to_date'', rt_toDate params)];
          queryParams = set_if ''born_event'' (rt_bornEvent params) queryParams;
          queryParams = set_if ''event'' (rt_event params) queryParams;
          queryParams = set_if ''retention_type'' (rt_retentionType params) queryParams;
          queryParams = set_num_if ''interval'' (rt_interval params) queryParams;
          queryParams = set_num_if ''interval_count'' (rt_intervalCount params) queryParams;
          queryParams = set_if ''unit'' (rt_unit params) queryParams
      in request c fetch (getMixpanelApiUrl c)
           (''/retention?'' @ URLSearchParams_toString queryParams) no_init)"

record FrequencyParams =
  fq_fromDate :: string
  fq_toDate :: string
  fq_event :: string
  fq_where :: "string option"
  fq_on :: "string option"

definition getFrequency :: "TenantCredentials \<Rightarrow> fetch \<Rightarrow> FrequencyParams \<Rightarrow> outcome" where
  "getFrequency c fetch params =
     (let queryParams = [(''project_id'', projectId c), (''from_date'', fq_fromDate params),
                         (''to_date'', fq_toDate params), (''event'', fq_event params)];
          queryParams = set_if ''where'' (fq_where params) queryParams;
          queryParams = set_if ''on'' (fq_on params) queryParams
      in request c fetch (getMixpanelApiUrl c)
           (''/retention/frequency?'' @ URLSearchParams_toString queryParams) no_init)"

subsection \<open>Query API: user profiles\<close>

record ProfileQuery =
  pq_where :: "string option"
  pq_sessionId :: "string option"
  pq_page :: "int option"
  pq_outputProperties :: "string list option"

definition reshape_profiles :: "json \<Rightarrow> error + jsvalue" where
  "reshape_profiles data =
     (case js_member data ''results'' of
        Inl e \<Rightarrow> Inl e
      | Inr (Json (JArr rs)) \<Rightarrow>
          (case map_throwing
                  (\<lambda>r. case js_member r ''$distinct_id'' of
                          Inl e \<Rightarrow> Inl e
                        | Inr d \<Rightarrow> Inr (Object [(''distinctId'', d),
                                                (''properties'', own r ''$properties'')])) rs
           of Inl e \<Rightarrow> Inl e
            | Inr results \<Rightarrow>
                Inr (Object [(''results'', Array results), (''page'', own data ''page''),
                             (''sessionId'', own data ''session_id''),
                             (''total'', own data ''total'')]))
      | Inr _ \<Rightarrow> Inl TypeError)"

definition queryProfiles :: "TenantCredentials \<Rightarrow> fetch \<Rightarrow> ProfileQuery option \<Rightarrow> outcome" where
  "queryProfiles c fetch params =
     (let body = js_object [(''project_id'', JStr (projectId c)),
                            (''page'', JNum (num_or (Option.bind params pq_page) 0))];
          body = (if truthy_str (Option.bind params pq_where)
                  then obj_put ''where'' (JStr (the (Option.bind params pq_where))) body else body);
          body = (if truthy_str (Option.bind params pq_sessionId)
                  then obj_put ''session_id'' (JStr (the (Option.bind params pq_sessionId))) body
                  else body);
          body = (case Option.bind params pq_outputProperties of
                    Some outputProperties \<Rightarrow>
                      obj_put ''output_properties'' (JArr (map JStr outputProperties)) body
                  | None \<Rightarrow> body)
      in reshaped
           (request c fetch (getMixpanelApiUrl c) ''/engage''
              \<lparr> init_method = Some ''POST'', init_headers = None,
                init_body = Some (JSON_stringify (JObj body)) \<rparr>)
           reshape_profiles)"

definition reshape_profile :: "string \<Rightarrow> json \<Rightarrow> error + jsvalue" where
  "reshape_profile distinctId data =
     (case js_member data ''results'' of
        Inl e \<Rightarrow> Inl e
      | Inr results \<Rightarrow>
          (case first_of results of
             Inl e \<Rightarrow> Inl e
           | Inr result \<Rightarrow>
               (let d = chained result ''$distinct_id''; p = chained result ''$properties''
                in Inr (Object [(''distinctId'', if truthy_value d then d else Json (JStr distinctId)),
                                (''properties'', if truthy_value p then p else Object [])]))))"

definition getProfile :: "TenantCredentials \<Rightarrow> fetch \<Rightarrow> string \<Rightarrow> outcome" where
  "getProfile c fetch distinctId =
     reshaped
       (request c fetch (getMixpanelApiUrl c) ''/engage''
          \<lparr> init_method = Some ''POST'', init_headers = None,
            init_body = Some (JSON_stringify (JObj (js_object
                          [(''project_id'', JStr (projectId c)),
                           (''distinct_id'', JStr distinctId)]))) \<rparr>)
       (reshape_profile distinctId)"

record ActivityParams =
  ac_limit :: "int option"
  ac_from :: "int option"
  ac_to :: "int option"

definition getProfileActivity ::
  "TenantCredentials \<Rightarrow> fetch \<Rightarrow> string \<Rightarrow> ActivityParams option \<Rightarrow> outcome" where
  "getProfileActivity c fetch distinctId params =
     (let queryParams = [(''project_id'', projectId c), (''distinct_id'', distinctId)];
          queryParams = set_num_if ''limit'' (Option.bind params ac_limit) queryParams;
          queryParams = set_num_if ''from'' (Option.bind params ac_from) queryParams;
          queryParams = set_num_if ''to'' (Option.bind params ac_to) queryParams
      in request c fetch (getMixpanelApiUrl c)
           (''/engage/activity?'' @ URLSearchParams_toString queryParams) no_init)"

subsection \<open>Query API: events, cohorts, JQL\<close>

definition reshape_top_events :: "json \<Rightarrow> error + jsvalue" where
  "reshape_top_events data =
     (case js_member data ''events'' of
        Inl e \<Rightarrow> Inl e
      | Inr events \<Rightarrow>
          (case Object_entries events of
             Inl e \<Rightarrow> Inl e
           | Inr entries \<Rightarrow>
               (case map_throwing
                       (\<lambda>(event, stats).
                          case member stats ''amount'' of
                            Inl e \<Rightarrow> Inl e
                          | Inr amount \<Rightarrow>
                              (case member stats ''percent_change'' of
                                 Inl e \<Rightarrow> Inl e
                               | Inr change \<Rightarrow>
                                   Inr (Object [(''event'', Json (JStr event)), (''amount'', amount),
                                                (''percentChange'', change)]))) entries
                of Inl e \<Rightarrow> Inl e
                 | Inr tops \<Rightarrow> Inr (Array tops))))"

definition getTopEvents :: "TenantCredentials \<Rightarrow> fetch \<Rightarrow> string \<Rightarrow> int option \<Rightarrow> outcome" where
  \<comment> \<open>the parameters are \<open>params.type\<close> and \<open>params.limit\<close>\<close>
  "getTopEvents c fetch type limit =
     (let queryParams = [(''project_id'', projectId c), (''type'', type),
                         (''limit'', show_int (num_or limit 10))]
      in reshaped
           (request c fetch (getMixpanelApiUrl c)
              (''/events/top?'' @ URLSearchParams_toString queryParams) no_init)
           reshape_top_events)"

definition getEventNames :: "TenantCredentials \<Rightarrow> fetch \<Rightarrow> string \<Rightarrow> int option \<Rightarrow> outcome" where
  "getEventNames c fetch type limit =
     (let queryParams = [(''project_id'', projectId c), (''type'', type),
                         (''limit'', show_int (num_or limit 255))]
      in request c fetch (getMixpanelApiUrl c)
           (''/events/names?'' @ URLSearchParams_toString queryParams) no_init)"

definition getEventProperties :: "TenantCredentials \<Rightarrow> fetch \<Rightarrow> string \<Rightarrow> outcome" where
  "getEventProperties c fetch eventName =
     (let queryParams = [(''project_id'', projectId c), (''event'', eventName)]
      in request c fetch (getMixpanelApiUrl c)
           (''/events/properties/top?'' @ URLSearchParams_toString queryParams) no_init)"

definition getPropertyValues ::
  "TenantCredentials \<Rightarrow> fetch \<Rightarrow> string \<Rightarrow> string \<Rightarrow> int option \<Rightarrow> outcome" where
  \<comment> \<open>the last parameter is \<open>params?.limit\<close>\<close>
  "getPropertyValues c fetch event property limit =
     (let queryParams = [(''project_id'', projectId c), (''event'', event), (''name'', property),
                         (''limit'', show_int (num_or limit 100))]
      in request c fetch (getMixpanelApiUrl c)
           (''/events/properties/values?'' @ URLSearchParams_toString queryParams) no_init)"

definition reshape_top_values :: "json \<Rightarrow> error + jsvalue" where
  "reshape_top_values data =
     (case Object_entries (Json data) of
        Inl e \<Rightarrow> Inl e
      | Inr entries \<Rightarrow>
          Inr (Array (map (\<lambda>(value, count). Object [(''value'', Json (JStr value)), (''count'', count)])
                       entries)))"

definition getTopPropertyValues ::
  "TenantCredentials \<Rightarrow> fetch \<Rightarrow> string \<Rightarrow> string \<Rightarrow> int option \<Rightarrow> outcome" where
  "getTopPropertyValues c fetch event property limit =
     (let queryParams = [(''project_id'', projectId c), (''event'', event), (''name'', property),
                         (''limit'', show_int (num_or limit 100))]
      in reshaped
           (request c fetch (getMixpanelApiUrl c)
              (''/events/properties/top?'' @ URLSearchParams_toString queryParams) no_init)
           reshape_top_values)"

record EventsQuery =
  eq_event :: "string list"
  eq_fromDate :: string
  eq_toDate :: string
  eq_type :: string
  eq_unit :: "string option"
  eq_interval :: "int option"
  eq_where :: "string option"

definition reshape_events :: "json \<Rightarrow> error + jsvalue" where
  "reshape_events data =
     (case js_member data ''data'' of Inl e \<Rightarrow> Inl e | Inr d \<Rightarrow> member d ''values'')"

definition queryEvents :: "TenantCredentials \<Rightarrow> fetch \<Rightarrow> EventsQuery \<Rightarrow> outcome" where
  "queryEvents c fetch params =
     (let queryParams = [(''project_id'', projectId c),
                         (''event'', JSON_stringify (JArr (map JStr (eq_event params)))),
                         (''from_date'', eq_fromDate params), (''to_date'', eq_toDate params),
                         (''type'', eq_type params)];
          queryParams = set_if ''unit'' (eq_unit params) queryParams;
          queryParams = set_num_if ''interval'' (eq_interval params) queryParams;
          queryParams = set_if ''where'' (eq_where params) queryParams
      in reshaped
           (request c fetch (getMixpanelApiUrl c)
              (''/events?'' @ URLSearchParams_toString queryParams) no_init)
           reshape_events)"

definition listCohorts :: "TenantCredentials \<Rightarrow> fetch \<Rightarrow> outcome" where
  "listCohorts c fetch =
     request c fetch (getMixpanelApiUrl c) ''/cohorts/list''
       \<lparr> init_method = Some ''POST'', init_headers = None,
         init_body = Some (JSON_stringify (JObj (js_object
                       [(''project_id'', JStr (projectId c))]))) \<rparr>"

definition executeJQL :: "TenantCredentials \<Rightarrow> fetch \<Rightarrow> string \<Rightarrow> outcome" where
  "executeJQL c fetch script =
     request c fetch (getMixpanelApiUrl c) ''/jql''
       \<lparr> init_method = Some ''POST'', init_headers = None,
         init_body = Some (JSON_stringify (JObj (js_object
                       [(''project_id'', JStr (projectId c)), (''script'', JStr script)]))) \<rparr>"

subsection \<open>Management API: annotations, lookup tables, schemas\<close>

record AnnotationRange =
  ar_fromDate :: "string option"
  ar_toDate :: "string option"

definition reshape_annotations :: "json \<Rightarrow> error + jsvalue" where
  "reshape_annotations data =
     (case js_member data ''annotations'' of
        Inl e \<Rightarrow> Inl e
      | Inr annotations \<Rightarrow> Inr (if truthy_value annotations then annotations else Array []))"

definition listAnnotations :: "TenantCredentials \<Rightarrow> fetch \<Rightarrow> AnnotationRange option \<Rightarrow> outcome" where
  "listAnnotations c fetch params =
     (let queryParams = [(''project_id'', projectId c)];
          queryParams = set_if ''from_date'' (Option.bind params ar_fromDate) queryParams;
          queryParams = set_if ''to_date'' (Option.bind params ar_toDate) queryParams
      in reshaped
           (request c fetch (getAppApiUrl c)
              (''/projects/'' @ projectId c @ ''/annotations?''
               @ URLSearchParams_toString queryParams) no_init)
           reshape_annotations)"

definition createAnnotation ::
  "TenantCredentials \<Rightarrow> fetch \<Rightarrow> (string \<times> json option) list \<Rightarrow> outcome" where
  \<comment> \<open>\<open>params\<close> is the object the caller passes: its properties in order, \<open>None\<close> for one that
      is \<open>undefined\<close>\<close>
  "createAnnotation c fetch params =
     request c fetch (getAppApiUrl c) (''/projects/'' @ projectId c @ ''/annotations'')
       \<lparr> init_method = Some ''POST'', init_headers = None,
         init_body = Some (JSON_stringify (JObj (defined_props params))) \<rparr>"

definition getAnnotation :: "TenantCredentials \<Rightarrow> fetch \<Rightarrow> int \<Rightarrow> outcome" where
  "getAnnotation c fetch annotationId =
     request c fetch (getAppApiUrl c)
       (''/projects/'' @ projectId c @ ''/annotations/'' @ show_int annotationId) no_init"

definition updateAnnotation ::
  "TenantCredentials \<Rightarrow> fetch \<Rightarrow> int \<Rightarrow> (string \<times> json option) list \<Rightarrow> outcome" where
  "updateAnnotation c fetch annotationId params =
     request c fetch (getAppApiUrl c)
       (''/projects/'' @ projectId c @ ''/annotations/'' @ show_int annotationId)
       \<lparr> init_method = Some ''PATCH'', init_headers = None,
         init_body = Some (JSON_stringify (JObj (defined_props params))) \<rparr>"

definition deleteAnnotation :: "TenantCredentials \<Rightarrow> fetch \<Rightarrow> int \<Rightarrow> outcome" where
  "deleteAnnotation c fetch annotationId =
     succeeded
       (request c fetch (getAppApiUrl c)
          (''/projects/'' @ projectId c @ ''/annotations/'' @ show_int annotationId)
          \<lparr> init_method = Some ''DELETE'', init_headers = None, init_body = None \<rparr>)"

definition listLookupTables :: "TenantCredentials \<Rightarrow> fetch \<Rightarrow> outcome" where
  "listLookupTables c fetch =
     request c fetch (getIngestionApiUrl c) (''/lookup_tables?project_id='' @ projectId c) no_init"

definition reshape_schemas :: "string option \<Rightarrow> json \<Rightarrow> error + jsvalue" where
  "reshape_schemas entityType data =
     (case data of
        JArr items \<Rightarrow>
          (case map_throwing
                  (\<lambda>item. case js_member item ''name'' of
                             Inl e \<Rightarrow> Inl e
                           | Inr name \<Rightarrow>
                               Inr (Object [(''entityType'',
                                             Json (JStr (if truthy_str entityType then the entityType
                                                         else ''event''))),
                                            (''name'', name),
                                            (''schemaJson'', own item ''schema_json'')])) items
           of Inl e \<Rightarrow> Inl e
            | Inr schemas \<Rightarrow> Inr (Array schemas))
      | _ \<Rightarrow> Inl TypeError)"

definition listSchemas :: "TenantCredentials \<Rightarrow> fetch \<Rightarrow> string option \<Rightarrow> outcome" where
  "listSchemas c fetch entityType =
     (let endpoint = ''/projects/'' @ projectId c @ ''/schemas'';
          endpoint = (if truthy_str entityType then endpoint @ ''/'' @ the entityType else endpoint)
      in reshaped (request c fetch (getAppApiUrl c) endpoint no_init) (reshape_schemas entityType))"

definition reshape_schema :: "string \<Rightarrow> json \<Rightarrow> error + jsvalue" where
  "reshape_schema entityType data =
     (case js_member data ''name'' of
        Inl e \<Rightarrow> Inl e
      | Inr name \<Rightarrow>
          Inr (Object [(''entityType'', Json (JStr entityType)), (''name'', name),
                       (''schemaJson'', own data ''schema_json'')]))"

definition getSchema :: "TenantCredentials \<Rightarrow> fetch \<Rightarrow> string \<Rightarrow> string \<Rightarrow> outcome" where
  "getSchema c fetch entityType name =
     reshaped
       (request c fetch (getAppApiUrl c)
          (''/projects/'' @ projectId c @ ''/schemas/'' @ entityType @ ''/''
           @ encodeURIComponent name) no_init)
       (reshape_schema entityType)"

definition createOrUpdateSchema ::
  "TenantCredentials \<Rightarrow> fetch \<Rightarrow> string \<Rightarrow> string \<Rightarrow> (string \<times> json) list \<Rightarrow> outcome" where
  "createOrUpdateSchema c fetch entityType name schemaJson =
     succeeded
       (request c fetch (getAppApiUrl c)
          (''/projects/'' @ projectId c @ ''/schemas/'' @ entityType @ ''/''
           @ encodeURIComponent name)
          \<lparr> init_method = Some ''POST'', init_headers = None,
            init_body = Some (JSON_stringify (JObj (js_object
                          [(''schema_json'', JObj schemaJson)]))) \<rparr>)"

definition deleteSchema :: "TenantCredentials \<Rightarrow> fetch \<Rightarrow> string \<Rightarrow> string \<Rightarrow> outcome" where
  "deleteSchema c fetch entityType name =
     succeeded
       (request c fetch (getAppApiUrl c)
          (''/projects/'' @ projectId c @ ''/schemas/'' @ entityType @ ''/''
           @ encodeURIComponent name)
          \<lparr> init_method = Some ''DELETE'', init_headers = None, init_body = None \<rparr>)"

subsection \<open>The operations as one type\<close>

text \<open>
  One constructor for each method of the client interface, with the arguments of the method;
  \<open>run\<close> calls the method in a world that holds the network, the clock, \<open>JSON.parse\<close>,
  \<open>formatError\<close> and \<open>Object.prototype\<close>.
\<close>

datatype operation =
    QueryInsights InsightsParams
  | ExportEvents ExportParams
  | TrackEvent TrackEventParams
  | TrackEvents "EventItem list"
  | ImportEvents "EventItem list"
  | SetProfileProperties string "(string \<times> json) list"
  | SetProfilePropertiesOnce string "(string \<times> json) list"
  | IncrementProfileProperties string "(string \<times> int) list"
  | AppendToProfileList string string "json list"
  | RemoveFromProfileList string string "json list"
  | UnionToProfileList string "(string \<times> json list) list"
  | UnsetProfileProperties string "string list"
  | DeleteProfile string
  | SetGroupProperties string string "(string \<times> json) list"
  | SetGroupPropertiesOnce string string "(string \<times> json) list"
  | UnsetGroupProperties string string "string list"
  | DeleteGroup string string
  | CreateIdentity string string
  | CreateAlias string string
  | MergeIdentities string string
  | CreateOrReplaceLookupTable string "(string \<times> json) list list"
  | CreateDataRetrieval "string list" "RetrievalOptions option"
  | GetDataRetrievalStatus string
  | CreateDataDeletion "string list"
  | GetDataDeletionStatus string
  | CancelDataDeletion string
  | TestConnection
  | QuerySegmentation SegmentationParams
  | QuerySegmentationNumeric SegmentationOnParams
  | QuerySegmentationSum SegmentationOnParams
  | QuerySegmentationAverage SegmentationOnParams
  | GetFunnel int FunnelParams
  | ListFunnels
  | GetRetention RetentionParams
  | GetFrequency FrequencyParams
  | QueryProfiles "ProfileQuery option"
  | GetProfile string
  | GetProfileActivity string "ActivityParams option"
  | GetTopEvents string "int option"
  | GetEventNames string "int option"
  | GetEventProperties string
  | GetPropertyValues string string "int option"
  | GetTopPropertyValues string string "int option"
  | QueryEvents EventsQuery
  | ListCohorts
  | ExecuteJQL string
  | ListAnnotations "AnnotationRange option"
  | CreateAnnotation "(string \<times> json option) list"
  | GetAnnotation int
  | UpdateAnnotation int "(string \<times> json option) list"
  | DeleteAnnotation int
  | ListLookupTables
  | ListSchemas "string option"
  | GetSchema string string
  | CreateOrUpdateSchema string string "(string \<times> json) list"
  | DeleteSchema string string

record world =
  w_fetch :: fetch
  w_now :: "nat \<Rightarrow> int"
  w_JSON_parse :: "string \<Rightarrow> json option"
  w_formatError :: "error \<Rightarrow> string"
  w_Object_prototype :: "string \<Rightarrow> string option"

primrec run :: "TenantCredentials \<Rightarrow> world \<Rightarrow> operation \<Rightarrow> outcome" where
  "run c w (QueryInsights p) = queryInsights c (w_fetch w) p"
| "run c w (ExportEvents p) = exportEvents (w_JSON_parse w) c (w_fetch w) p"
| "run c w (TrackEvent p) = trackEvent c (w_now w 0) (w_fetch w) p"
| "run c w (TrackEvents es) = trackEvents c (w_now w) (w_fetch w) es"
| "run c w (ImportEvents es) = importEvents c (w_fetch w) es"
| "run c w (SetProfileProperties d ps) = setProfileProperties c (w_fetch w) d ps"
| "run c w (SetProfilePropertiesOnce d ps) = setProfilePropertiesOnce c (w_fetch w) d ps"
| "run c w (IncrementProfileProperties d ps) = incrementProfileProperties c (w_fetch w) d ps"
| "run c w (AppendToProfileList d p vs) = appendToProfileList c (w_fetch w) d p vs"
| "run c w (RemoveFromProfileList d p vs) = removeFromProfileList c (w_fetch w) d p vs"
| "run c w (UnionToProfileList d ps) = unionToProfileList c (w_fetch w) d ps"
| "run c w (UnsetProfileProperties d ps) = unsetProfileProperties c (w_fetch w) d ps"
| "run c w (DeleteProfile d) = deleteProfile c (w_fetch w) d"
| "run c w (SetGroupProperties k g ps) = setGroupProperties c (w_fetch w) k g ps"
| "run c w (SetGroupPropertiesOnce k g ps) = setGroupPropertiesOnce c (w_fetch w) k g ps"
| "run c w (UnsetGroupProperties k g ps) = unsetGroupProperties c (w_fetch w) k g ps"
| "run c w (DeleteGroup k g) = deleteGroup c (w_fetch w) k g"
| "run c w (CreateIdentity d a) = createIdentity c (w_fetch w) d a"
| "run c w (CreateAlias d a) = createAlias c (w_fetch w) d a"
| "run c w (MergeIdentities d1 d2) = mergeIdentities c (w_fetch w) d1 d2"
| "run c w (CreateOrReplaceLookupTable t rows) = createOrReplaceLookupTable (w_Object_prototype w) c (w_fetch w) t rows"
| "run c w (CreateDataRetrieval ids opts) = createDataRetrieval c (w_fetch w) ids opts"
| "run c w (GetDataRetrievalStatus r) = getDataRetrievalStatus c (w_fetch w) r"
| "run c w (CreateDataDeletion ids) = createDataDeletion c (w_fetch w) ids"
| "run c w (GetDataDeletionStatus r) = getDataDeletionStatus c (w_fetch w) r"
| "run c w (CancelDataDeletion r) = cancelDataDeletion c (w_fetch w) r"
| "run c w TestConnection = testConnection (w_formatError w) c (w_fetch w)"
| "run c w (QuerySegmentation p) = querySegmentation c (w_fetch w) p"
| "run c w (QuerySegmentationNumeric p) = querySegmentationNumeric c (w_fetch w) p"
| "run c w (QuerySegmentationSum p) = querySegmentationSum c (w_fetch w) p"
| "run c w (QuerySegmentationAverage p) = querySegmentationAverage c (w_fetch w) p"
| "run c w (GetFunnel f p) = getFunnel c (w_fetch w) f p"
| "run c w ListFunnels = listFunnels c (w_fetch w)"
| "run c w (GetRetention p) = getRetention c (w_fetch w) p"
| "run c w (GetFrequency p) = getFrequency c (w_fetch w) p"
| "run c w (QueryProfiles p) = queryProfiles c (w_fetch w) p"
| "run c w (GetProfile d) = getProfile c (w_fetch w) d"
| "run c w (GetProfileActivity d p) = getProfileActivity c (w_fetch w) d p"
| "run c w (GetTopEvents t l) = getTopEvents c (w_fetch w) t l"
| "run c w (GetEventNames t l) = getEventNames c (w_fetch w) t l"
| "run c w (GetEventProperties e) = getEventProperties c (w_fetch w) e"
| "run c w (GetPropertyValues e p l) = getPropertyValues c (w_fetch w) e p l"
| "run c w (GetTopPropertyValues e p l) = getTopPropertyValues c (w_fetch w) e p l"
| "run c w (QueryEvents p) = queryEvents c (w_fetch w) p"
| "run c w ListCohorts = listCohorts c (w_fetch w)"
| "run c w (ExecuteJQL script) = executeJQL c (w_fetch w) script"
| "run c w (ListAnnotations p) = listAnnotations c (w_fetch w) p"
| "run c w (CreateAnnotation p) = createAnnotation c (w_fetch w) p"
| "run c w (GetAnnotation a) = getAnnotation c (w_fetch w) a"
| "run c w (UpdateAnnotation a p) = updateAnnotation c (w_fetch w) a p"
| "run c w (DeleteAnnotation a) = deleteAnnotation c (w_fetch w) a"
| "run c w ListLookupTables = listLookupTables c (w_fetch w)"
| "run c w (ListSchemas t) = listSchemas c (w_fetch w) t"
| "run c w (GetSchema t n) = getSchema c (w_fetch w) t n"
| "run c w (CreateOrUpdateSchema t n j) = createOrUpdateSchema c (w_fetch w) t n j"
| "run c w (DeleteSchema t n) = deleteSchema c (w_fetch w) t n"


section \<open>Notions the properties are stated with\<close>

definition true_ignoring_case :: "string \<Rightarrow> bool" where
  \<comment> \<open>the string \<open>true\<close>, each letter in either case\<close>
  "true_ignoring_case v =
     list_all2 (\<lambda>x l. x = l \<or> (of_char x :: nat) + 32 = of_char l) v ''true''"

definition eu_header_true :: "Request \<Rightarrow> bool" where
  \<comment> \<open>the EU-residency header is there and is \<open>true\<close> up to case\<close>
  "eu_header_true inbound =
     (case headers_get inbound ''X-Mixpanel-EU-Resident'' of
        None \<Rightarrow> False
      | Some v \<Rightarrow> true_ignoring_case v)"

definition missing_headers :: "TenantCredentials \<Rightarrow> string list" where
  \<comment> \<open>the headers of the mandatory fields that are missing\<close>
  "missing_headers c =
     (if username c = [] then [''X-Mixpanel-Service-Account-Username''] else [])
     @ (if secret c = [] then [''X-Mixpanel-Service-Account-Secret''] else [])
     @ (if projectId c = [] then [''X-Mixpanel-Project-Id''] else [])"

definition names_missing_fields :: "TenantCredentials \<Rightarrow> bool" where
  \<comment> \<open>validation fails with a message that names every missing field's header\<close>
  "names_missing_fields c =
     (case validateCredentials c of
        Inl (Error m) \<Rightarrow> list_all (\<lambda>h. sublist h m) (missing_headers c)
      | _ \<Rightarrow> False)"

datatype surface = Query | Ingestion | DataExport | App

definition surface_url :: "surface \<Rightarrow> bool \<Rightarrow> string" where
  "surface_url s eu =
     (case s of
        Query \<Rightarrow> if eu then ''https://eu.mixpanel.com/api/2.0'' else ''https://mixpanel.com/api/2.0''
      | Ingestion \<Rightarrow> if eu then ''https://api-eu.mixpanel.com'' else ''https://api.mixpanel.com''
      | DataExport \<Rightarrow> if eu then ''https://data-eu.mixpanel.com/api/2.0'' else ''https://data.mixpanel.com/api/2.0''
      | App \<Rightarrow> if eu then ''https://eu.mixpanel.com/api/app'' else ''https://mixpanel.com/api/app'')"

primrec surface_of :: "operation \<Rightarrow> surface" where
  "surface_of (QueryInsights p) = Query"
| "surface_of (ExportEvents p) = DataExport"
| "surface_of (TrackEvent p) = Ingestion"
| "surface_of (TrackEvents es) = Ingestion"
| "surface_of (ImportEvents es) = Ingestion"
| "surface_of (SetProfileProperties d ps) = Ingestion"
| "surface_of (SetProfilePropertiesOnce d ps) = Ingestion"
| "surface_of (IncrementProfileProperties d ps) = Ingestion"
| "surface_of (AppendToProfileList d p vs) = Ingestion"
| "surface_of (RemoveFromProfileList d p vs) = Ingestion"
| "surface_of (UnionToProfileList d ps) = Ingestion"
| "surface_of (UnsetProfileProperties d ps) = Ingestion"
| "surface_of (DeleteProfile d) = Ingestion"
| "surface_of (SetGroupProperties k g ps) = Ingestion"
| "surface_of (SetGroupPropertiesOnce k g ps) = Ingestion"
| "surface_of (UnsetGroupProperties k g ps) = Ingestion"
| "surface_of (DeleteGroup k g) = Ingestion"
| "surface_of (CreateIdentity d a) = Ingestion"
| "surface_of (CreateAlias d a) = Ingestion"
| "surface_of (MergeIdentities d1 d2) = Ingestion"
| "surface_of (CreateOrReplaceLookupTable t rows) = Ingestion"
| "surface_of (CreateDataRetrieval ids opts) = App"
| "surface_of (GetDataRetrievalStatus r) = App"
| "surface_of (CreateDataDeletion ids) = App"
| "surface_of (GetDataDeletionStatus r) = App"
| "surface_of (CancelDataDeletion r) = App"
| "surface_of TestConnection = Query"
| "surface_of (QuerySegmentation p) = Query"
| "surface_of (QuerySegmentationNumeric p) = Query"
| "surface_of (QuerySegmentationSum p) = Query"
| "surface_of (QuerySegmentationAverage p) = Query"
| "surface_of (GetFunnel f p) = Query"
| "surface_of ListFunnels = Query"
| "surface_of (GetRetention p) = Query"
| "surface_of (GetFrequency p) = Query"
| "surface_of (QueryProfiles p) = Query"
| "surface_of (GetProfile d) = Query"
| "surface_of (GetProfileActivity d p) = Query"
| "surface_of (GetTopEvents t l) = Query"
| "surface_of (GetEventNames t l) = Query"
| "surface_of (GetEventProperties e) = Query"
| "surface_of (GetPropertyValues e p l) = Query"
| "surface_of (GetTopPropertyValues e p l) = Query"
| "surface_of (QueryEvents p) = Query"
| "surface_of ListCohorts = Query"
| "surface_of (ExecuteJQL script) = Query"
| "surface_of (ListAnnotations p) = App"
| "surface_of (CreateAnnotation p) = App"
| "surface_of (GetAnnotation a) = App"
| "surface_of (UpdateAnnotation a p) = App"
| "surface_of (DeleteAnnotation a) = App"
| "surface_of ListLookupTables = Ingestion"
| "surface_of (ListSchemas t) = App"
| "surface_of (GetSchema t n) = App"
| "surface_of (CreateOrUpdateSchema t n j) = App"
| "surface_of (DeleteSchema t n) = App"

datatype handling = ViaRequest | ViaIngestion | ViaExport | StatusFlag | Lookup | Caught

primrec handling_of :: "operation \<Rightarrow> handling" where
  \<comment> \<open>which code reads the HTTP response of an operation: \<open>request\<close>, \<open>requestIngestion\<close>,
      the body of \<open>exportEvents\<close>, the \<open>response.ok ? 1 : 0\<close> tail, the body of
      \<open>createOrReplaceLookupTable\<close>, or \<open>request\<close> under the \<open>try/catch\<close> of \<open>testConnection\<close>\<close>
  "handling_of (QueryInsights p) = ViaRequest"
| "handling_of (ExportEvents p) = ViaExport"
| "handling_of (TrackEvent p) = StatusFlag"
| "handling_of (TrackEvents es) = StatusFlag"
| "handling_of (ImportEvents es) = ViaIngestion"
| "handling_of (SetProfileProperties d ps) = StatusFlag"
| "handling_of (SetProfilePropertiesOnce d ps) = StatusFlag"
| "handling_of (IncrementProfileProperties d ps) = StatusFlag"
| "handling_of (AppendToProfileList d p vs) = StatusFlag"
| "handling_of (RemoveFromProfileList d p vs) = StatusFlag"
| "handling_of (UnionToProfileList d ps) = StatusFlag"
| "handling_of (UnsetProfileProperties d ps) = StatusFlag"
| "handling_of (DeleteProfile d) = StatusFlag"
| "handling_of (SetGroupProperties k g ps) = StatusFlag"
| "handling_of (SetGroupPropertiesOnce k g ps) = StatusFlag"
| "handling_of (UnsetGroupProperties k g ps) = StatusFlag"
| "handling_of (DeleteGroup k g) = StatusFlag"
| "handling_of (CreateIdentity d a) = StatusFlag"
| "handling_of (CreateAlias d a) = StatusFlag"
| "handling_of (MergeIdentities d1 d2) = StatusFlag"
| "handling_of (CreateOrReplaceLookupTable t rows) = Lookup"
| "handling_of (CreateDataRetrieval ids opts) = ViaRequest"
| "handling_of (GetDataRetrievalStatus r) = ViaRequest"
| "handling_of (CreateDataDeletion ids) = ViaRequest"
| "handling_of (GetDataDeletionStatus r) = ViaRequest"
| "handling_of (CancelDataDeletion r) = ViaRequest"
| "handling_of TestConnection = Caught"
| "handling_of (QuerySegmentation p) = ViaRequest"
| "handling_of (QuerySegmentationNumeric p) = ViaRequest"
| "handling_of (QuerySegmentationSum p) = ViaRequest"
| "handling_of (QuerySegmentationAverage p) = ViaRequest"
| "handling_of (GetFunnel f p) = ViaRequest"
| "handling_of ListFunnels = ViaRequest"
| "handling_of (GetRetention p) = ViaRequest"
| "handling_of (GetFrequency p) = ViaRequest"
| "handling_of (QueryProfiles p) = ViaRequest"
| "handling_of (GetProfile d) = ViaRequest"
| "handling_of (GetProfileActivity d p) = ViaRequest"
| "handling_of (GetTopEvents t l) = ViaRequest"
| "handling_of (GetEventNames t l) = ViaRequest"
| "handling_of (GetEventProperties e) = ViaRequest"
| "handling_of (GetPropertyValues e p l) = ViaRequest"
| "handling_of (GetTopPropertyValues e p l) = ViaRequest"
| "handling_of (QueryEvents p) = ViaRequest"
| "handling_of ListCohorts = ViaRequest"
| "handling_of (ExecuteJQL script) = ViaRequest"
| "handling_of (ListAnnotations p) = ViaRequest"
| "handling_of (CreateAnnotation p) = ViaRequest"
| "handling_of (GetAnnotation a) = ViaRequest"
| "handling_of (UpdateAnnotation a p) = ViaRequest"
| "handling_of (DeleteAnnotation a) = ViaRequest"
| "handling_of ListLookupTables = ViaRequest"
| "handling_of (ListSchemas t) = ViaRequest"
| "handling_of (GetSchema t n) = ViaRequest"
| "handling_of (CreateOrUpdateSchema t n j) = ViaRequest"
| "handling_of (DeleteSchema t n) = ViaRequest"

definition gdpr :: "operation \<Rightarrow> bool" where
  "gdpr op = (case op of CreateDataRetrieval _ _ \<Rightarrow> True | GetDataRetrievalStatus _ \<Rightarrow> True
              | CreateDataDeletion _ \<Rightarrow> True | GetDataDeletionStatus _ \<Rightarrow> True
              | CancelDataDeletion _ \<Rightarrow> True | _ \<Rightarrow> False)"

definition token_guarded :: "operation \<Rightarrow> bool" where
  \<comment> \<open>event tracking and import, profile and group mutation, identity linking\<close>
  "token_guarded op = (handling_of op = StatusFlag \<or> handling_of op = ViaIngestion)"

definition ingestion_class :: "operation \<Rightarrow> bool" where
  \<comment> \<open>event tracking, profile/group mutation, identity linking, GDPR requests\<close>
  "ingestion_class op = (token_guarded op \<or> gdpr op)"

definition token_required :: "error + result \<Rightarrow> bool" where
  \<comment> \<open>a thrown error that says a project token is required and names its header\<close>
  "token_required r =
     (case r of
        Inl (ApiError m None) \<Rightarrow> prefix ''Project token required'' m \<and> sublist ''X-Mixpanel-Project-Token'' m
      | _ \<Rightarrow> False)"

definition replies :: "world \<Rightarrow> http_response \<Rightarrow> world" where
  \<comment> \<open>the world in which every HTTP call receives the given response\<close>
  "replies w response = w\<lparr> w_fetch := (\<lambda>req. Inr response) \<rparr>"

definition numeric :: "string \<Rightarrow> bool" where
  "numeric v = (v \<noteq> [] \<and> list_all is_digit v)"

definition retry_after_stated :: "http_response \<Rightarrow> parsed_number" where
  \<comment> \<open>the header's integer when present and numeric, 60 otherwise\<close>
  "retry_after_stated response =
     (case resp_header response ''Retry-After'' of
        Some v \<Rightarrow> if numeric v then Num (digits_val v) else Num 60
      | None \<Rightarrow> Num 60)"

definition rate_limited :: "parsed_number \<Rightarrow> error + result \<Rightarrow> bool" where
  "rate_limited n r = (case r of Inl (RateLimitError m n') \<Rightarrow> n' = n | _ \<Rightarrow> False)"

definition failure_stated :: "http_response \<Rightarrow> error + result \<Rightarrow> bool" where
  \<comment> \<open>for a status outside 2xx other than 429: an authentication failure on 401 and 403, else
      an API error with the status and a message that holds the body text\<close>
  "failure_stated response r =
     (if resp_status response = 401 \<or> resp_status response = 403
      then (case r of Inl (AuthenticationError m) \<Rightarrow> True | _ \<Rightarrow> False)
      else (case r of
              Inl (ApiError m st) \<Rightarrow> st = Some (resp_status response) \<and> sublist (resp_text response) m
            | _ \<Rightarrow> False))"

definition sends :: "TenantCredentials \<Rightarrow> operation \<Rightarrow> bool" where
  \<comment> \<open>the operation gets as far as its HTTP call: the token is there where it is checked,
      and a lookup table has a row\<close>
  "sends c op =
     ((token_guarded op \<longrightarrow> truthy_str (projectToken c))
      \<and> (case op of CreateOrReplaceLookupTable t rows \<Rightarrow> rows \<noteq> [] | _ \<Rightarrow> True))"

definition retry_after_plain :: "http_response \<Rightarrow> bool" where
  \<comment> \<open>the Retry-After header is absent, empty, or a string of digits for a number that the
      host holds exactly\<close>
  "retry_after_plain response =
     (case resp_header response ''Retry-After'' of
        None \<Rightarrow> True
      | Some v \<Rightarrow> v = [] \<or> (numeric v \<and> digits_val v < 9007199254740992))"

definition after_429 :: "world \<Rightarrow> http_response \<Rightarrow> handling \<Rightarrow> error + result" where
  \<comment> \<open>the amended statement for a 429 response, by the code that reads the response\<close>
  "after_429 w response h =
     (case h of
        ViaRequest \<Rightarrow> Inl (RateLimitError ''Rate limit exceeded'' (retry_after_stated response))
      | ViaIngestion \<Rightarrow> Inl (RateLimitError ''Rate limit exceeded'' (Num 60))
      | ViaExport \<Rightarrow> Inl (RateLimitError ''Rate limit exceeded'' (Num 60))
      | StatusFlag \<Rightarrow> Inr (Status 0)
      | Lookup \<Rightarrow> Inl (ApiError (''Failed to create lookup table: '' @ resp_text response) (Some 429))
      | Caught \<Rightarrow> Inr (Connection False
                   (w_formatError w (RateLimitError ''Rate limit exceeded'' (retry_after_stated response)))))"

definition request_failure :: "http_response \<Rightarrow> error" where
  "request_failure response =
     (if resp_status response = 401 \<or> resp_status response = 403
      then AuthenticationError ''Invalid credentials''
      else ApiError (''API error: '' @ show_nat (resp_status response) @ '' - '' @ resp_text response)
             (Some (resp_status response)))"

definition after_failure :: "world \<Rightarrow> http_response \<Rightarrow> handling \<Rightarrow> error + result" where
  \<comment> \<open>the amended statement for a status outside 2xx other than 429\<close>
  "after_failure w response h =
     (case h of
        ViaRequest \<Rightarrow> Inl (request_failure response)
      | ViaIngestion \<Rightarrow>
          Inl (ApiError (''Ingestion API error: '' @ show_nat (resp_status response) @ '' - ''
                          @ resp_text response) (Some (resp_status response)))
      | ViaExport \<Rightarrow>
          Inl (ApiError (''Export failed: '' @ show_nat (resp_status response) @ '' - ''
                          @ resp_text response) (Some (resp_status response)))
      | StatusFlag \<Rightarrow> Inr (Status 0)
      | Lookup \<Rightarrow>
          Inl (ApiError (''Failed to create lookup table: '' @ resp_text response)
                (Some (resp_status response)))
      | Caught \<Rightarrow> Inr (Connection False (w_formatError w (request_failure response))))"

datatype csv_state = FieldStart | Unquoted | Quoted | QuoteSeen

fun csv_scan ::
  "csv_state \<Rightarrow> string \<Rightarrow> string list \<Rightarrow> string list list \<Rightarrow> string \<Rightarrow> string list list" where
  \<comment> \<open>a CSV reader as a state machine: the field and the record read so far and the records
      before them, all reversed. Fields end at a comma, records at a line feed; a field that
      opens with a quote runs to its closing quote, a doubled quote inside standing for one\<close>
  "csv_scan st f r rs [] = rev (rev (rev f # r) # rs)"
| "csv_scan st f r rs (c # cs) =
     (if st = Quoted then
        (if c = DQ then csv_scan QuoteSeen f r rs cs else csv_scan Quoted (c # f) r rs cs)
      else if c = DQ \<and> st = FieldStart then csv_scan Quoted f r rs cs
      else if c = DQ \<and> st = QuoteSeen then csv_scan Quoted (DQ # f) r rs cs
      else if c = CHR '','' then csv_scan FieldStart [] (rev f # r) rs cs
      else if c = LF then csv_scan FieldStart [] [] (rev (rev f # r) # rs) cs
      else csv_scan Unquoted (c # f) r rs cs)"

definition parse_csv :: "string \<Rightarrow> string list list" where
  "parse_csv s = csv_scan FieldStart [] [] [] s"

definition cell_text :: "row_member \<Rightarrow> string" where
  \<comment> \<open>the text a cell stands for: empty for \<open>null\<close> and \<open>undefined\<close>, \<open>String(val)\<close> otherwise\<close>
  "cell_text val =
     (case val of Absent \<Rightarrow> [] | Own JNull \<Rightarrow> [] | Own v \<Rightarrow> js_String v | Inherited text \<Rightarrow> text)"

definition table_of :: "(string \<Rightarrow> string option) \<Rightarrow> (string \<times> json) list list \<Rightarrow> string list list" where
  \<comment> \<open>the table a list of rows stands for: the keys of the first row, then one record per row
      with the text of \<open>row[h]\<close> for each of those keys\<close>
  "table_of proto data =
     (case data of
        [] \<Rightarrow> []
      | first # _ \<Rightarrow>
          map fst first # map (\<lambda>row. map (\<lambda>h. cell_text (row_get proto row h)) (map fst first)) data)"


definition hex_val :: "char \<Rightarrow> nat" where
  "hex_val c =
     (let n = (of_char c :: nat)
      in if 48 \<le> n \<and> n \<le> 57 then n - 48 else if 65 \<le> n \<and> n \<le> 70 then n - 55 else n - 87)"

fun url_decode :: "string \<Rightarrow> string" where
  "url_decode [] = []"
| "url_decode [c] = (if c = CHR ''+'' then '' '' else [c])"
| "url_decode [c, d] = (if c = CHR ''+'' then CHR '' '' # url_decode [d] else c # url_decode [d])"
| "url_decode (c # h # l # rest) =
     (if c = CHR ''%'' then char_of (16 * hex_val h + hex_val l) # url_decode rest
      else if c = CHR ''+'' then CHR '' '' # url_decode (h # l # rest)
      else c # url_decode (h # l # rest))"

definition parse_query :: "string \<Rightarrow> (string \<times> string) list" where
  \<comment> \<open>the name/value pairs of a query string: split at \<open>&\<close>, then at the first \<open>=\<close>, then decoded\<close>
  "parse_query qs =
     map (\<lambda>p. (url_decode (takeWhile (\<lambda>ch. ch \<noteq> CHR ''='') p),
               url_decode (drop 1 (dropWhile (\<lambda>ch. ch \<noteq> CHR ''='') p))))
         (filter (\<lambda>p. p \<noteq> []) (js_split (CHR ''&'') qs))"

definition profile_mutation :: "operation \<Rightarrow> (string \<times> string \<times> json) option" where
  \<comment> \<open>for a profile mutation: the distinct id, the operation key and the payload\<close>
  "profile_mutation op =
     (case op of
        SetProfileProperties d ps \<Rightarrow> Some (d, ''$set'', JObj ps)
      | SetProfilePropertiesOnce d ps \<Rightarrow> Some (d, ''$set_once'', JObj ps)
      | IncrementProfileProperties d ps \<Rightarrow> Some (d, ''$add'', JObj (map (\<lambda>(k, n). (k, JNum n)) ps))
      | AppendToProfileList d p vs \<Rightarrow> Some (d, ''$append'', JObj [(p, JArr vs)])
      | RemoveFromProfileList d p vs \<Rightarrow> Some (d, ''$remove'', JObj [(p, JArr vs)])
      | UnionToProfileList d ps \<Rightarrow> Some (d, ''$union'', JObj (map (\<lambda>(k, vs). (k, JArr vs)) ps))
      | UnsetProfileProperties d ps \<Rightarrow> Some (d, ''$unset'', JArr (map JStr ps))
      | DeleteProfile d \<Rightarrow> Some (d, ''$delete'', JStr [])
      | _ \<Rightarrow> None)"


section \<open>Credential resolution\<close>

lemma of_char_less_256: "(of_char c :: nat) < 256"
  by (metis of_char_mod_256 mod_less_divisor zero_less_numeral)

lemma char_eq_by_code: "(a = b) = ((of_char a :: nat) = of_char b)"
  by auto

lemma toLowerCase_char_code:
  assumes "of_char l = (k::nat)" and "97 \<le> k" and "k \<le> 122"
  shows "toLowerCase_char x = l \<longleftrightarrow> (of_char x :: nat) = k \<or> (of_char x :: nat) = k - 32"
proof -
  have "(of_char x :: nat) < 256" by (rule of_char_less_256)
  then show ?thesis
    using assms
    by (auto simp: toLowerCase_char_def Let_def char_of_eq_iff take_bit_eq_mod
        char_eq_by_code[of _ l])
qed

lemma toLowerCase_char_letter:
  assumes "of_char l = (k::nat)" and "97 \<le> k" and "k \<le> 122"
  shows "toLowerCase_char x = l \<longleftrightarrow> x = l \<or> (of_char x :: nat) + 32 = of_char l"
proof -
  have "x = l \<longleftrightarrow> (of_char x :: nat) = k"
    using assms(1) by (simp add: char_eq_by_code[of x l])
  moreover have "(of_char x :: nat) + 32 = of_char l \<longleftrightarrow> (of_char x :: nat) = k - 32"
    using assms by arith
  ultimately show ?thesis
    using toLowerCase_char_code[OF assms, of x] by simp
qed

lemma toLowerCase_true: "toLowerCase v = ''true'' \<longleftrightarrow> true_ignoring_case v"
proof -
  have "toLowerCase v = ''true'' \<longleftrightarrow> list_all2 (\<lambda>x l. toLowerCase_char x = l) v ''true''"
    unfolding toLowerCase_def by (simp add: list_all2_conv_all_nth list_eq_iff_nth_eq)
  also have "\<dots> \<longleftrightarrow> true_ignoring_case v"
    unfolding true_ignoring_case_def
    by (simp add: list_all2_Cons2 toLowerCase_char_letter[where k=116]
        toLowerCase_char_letter[where k=114] toLowerCase_char_letter[where k=117]
        toLowerCase_char_letter[where k=101])
  finally show ?thesis .
qed

lemma validateCredentials_Inr:
  "validateCredentials c = Inr u \<longleftrightarrow> username c \<noteq> [] \<and> secret c \<noteq> [] \<and> projectId c \<noteq> []"
  by (simp add: validateCredentials_def)


lemma validateCredentials_message:
  assumes "username c = [] \<or> secret c = [] \<or> projectId c = []"
  shows "validateCredentials c =
           Inl (Error (if username c = [] \<or> secret c = []
                       then ''Missing credentials. Provide X-Mixpanel-Service-Account-Username and X-Mixpanel-Service-Account-Secret headers.''
                       else ''Missing project ID. Provide X-Mixpanel-Project-Id header.''))"
  using assms by (auto simp: validateCredentials_def)

lemma names_service_account_headers:
  "sublist ''X-Mixpanel-Service-Account-Username''
     ''Missing credentials. Provide X-Mixpanel-Service-Account-Username and X-Mixpanel-Service-Account-Secret headers.''"
  "sublist ''X-Mixpanel-Service-Account-Secret''
     ''Missing credentials. Provide X-Mixpanel-Service-Account-Username and X-Mixpanel-Service-Account-Secret headers.''"
  "\<not> sublist ''X-Mixpanel-Project-Id''
     ''Missing credentials. Provide X-Mixpanel-Service-Account-Username and X-Mixpanel-Service-Account-Secret headers.''"
  by code_simp+

lemma names_project_header:
  "sublist ''X-Mixpanel-Project-Id'' ''Missing project ID. Provide X-Mixpanel-Project-Id header.''"
  by code_simp

text \<open>
  C5 (as amended). For every credential set in which username, secret or projectId is missing
  (empty), validation fails, and the \<open>/mcp\<close> handler answers 401 with that message without
  reaching the client, so without any HTTP call. The message names the headers of the first
  check that fails: both service-account headers, and not the project-id header, when
  username or secret is missing, and the project-id header when only projectId is missing.
\<close>

theorem missing_credentials_rejected:
  assumes "username c = [] \<or> secret c = [] \<or> projectId c = []"
  shows "\<exists>m. validateCredentials c = Inl (Error m)
           \<and> (if username c = [] \<or> secret c = []
               then sublist ''X-Mixpanel-Service-Account-Username'' m
                    \<and> sublist ''X-Mixpanel-Service-Account-Secret'' m
                    \<and> \<not> sublist ''X-Mixpanel-Project-Id'' m
               else sublist ''X-Mixpanel-Project-Id'' m)
           \<and> (\<forall>inbound serve.
                 pathname inbound = ''/mcp'' \<and> http_method inbound = ''POST''
                 \<and> parseTenantCredentials inbound = c
                 \<longrightarrow> worker_fetch serve inbound = (Unauthorized m UNAUTHORIZED_REQUIRED, []))"
proof -
  let ?m = "if username c = [] \<or> secret c = []
            then ''Missing credentials. Provide X-Mixpanel-Service-Account-Username and X-Mixpanel-Service-Account-Secret headers.''
            else ''Missing project ID. Provide X-Mixpanel-Project-Id header.''"
  have v: "validateCredentials c = Inl (Error ?m)"
    by (rule validateCredentials_message[OF assms])
  have n: "if username c = [] \<or> secret c = []
           then sublist ''X-Mixpanel-Service-Account-Username'' ?m
                \<and> sublist ''X-Mixpanel-Service-Account-Secret'' ?m
                \<and> \<not> sublist ''X-Mixpanel-Project-Id'' ?m
           else sublist ''X-Mixpanel-Project-Id'' ?m"
    using names_service_account_headers names_project_header by simp
  have w: "\<forall>inbound serve.
             pathname inbound = ''/mcp'' \<and> http_method inbound = ''POST''
             \<and> parseTenantCredentials inbound = c
             \<longrightarrow> worker_fetch serve inbound = (Unauthorized ?m UNAUTHORIZED_REQUIRED, [])"
    using v by (simp add: worker_fetch_def Let_def)
  from v n w show ?thesis by blast
qed

theorem missing_credentials_rejected_witness:
  "\<exists>m. validateCredentials \<lparr> username = [], secret = ''shh'', projectId = ''123'',
                            projectToken = None, euResident = Some False \<rparr> = Inl (Error m)
       \<and> sublist ''X-Mixpanel-Service-Account-Username'' m
       \<and> worker_fetch (\<lambda>c r. ((), []))
            \<lparr> pathname = ''/mcp'', http_method = ''POST'',
              headers_get = [''X-Mixpanel-Service-Account-Secret'' \<mapsto> ''shh'',
                             ''X-Mixpanel-Project-Id'' \<mapsto> ''123''] \<rparr>
          = (Unauthorized m UNAUTHORIZED_REQUIRED, [])"
proof -
  let ?c = "\<lparr> username = [], secret = ''shh'', projectId = ''123'',
              projectToken = None, euResident = Some False \<rparr>"
  let ?r = "\<lparr> pathname = ''/mcp'', http_method = ''POST'',
              headers_get = [''X-Mixpanel-Service-Account-Secret'' \<mapsto> ''shh'',
                             ''X-Mixpanel-Project-Id'' \<mapsto> ''123''] \<rparr>"
  have p: "parseTenantCredentials ?r = ?c"
    by (simp add: parseTenantCredentials_def or_empty_def or_undefined_def truthy_str_def)
  have h: "username ?c = [] \<or> secret ?c = [] \<or> projectId ?c = []" by simp
  from missing_credentials_rejected[OF h] obtain m where
    m: "validateCredentials ?c = Inl (Error m)"
       "sublist ''X-Mixpanel-Service-Account-Username'' m"
       "\<forall>inbound (serve :: TenantCredentials \<Rightarrow> Request \<Rightarrow> unit \<times> http_request list).
           pathname inbound = ''/mcp'' \<and> http_method inbound = ''POST''
           \<and> parseTenantCredentials inbound = ?c
           \<longrightarrow> worker_fetch serve inbound = (Unauthorized m UNAUTHORIZED_REQUIRED, [])"
    by auto
  from m(3)[rule_format, of ?r "\<lambda>c r. ((), [])"] p
  have "worker_fetch (\<lambda>c r. ((), [])) ?r = (Unauthorized m UNAUTHORIZED_REQUIRED, [])"
    by simp
  with m(1,2) show ?thesis by blast
qed

theorem names_missing_fields_counterexample:
  "\<not> names_missing_fields \<lparr> username = [], secret = ''shh'', projectId = [],
                            projectToken = None, euResident = Some False \<rparr>"
  by code_simp

text \<open>
  C9. A header present with an empty value is read exactly like an absent header, whatever
  its name. Absent username, secret and project-id headers give the empty string and an empty
  project-token header gives \<open>undefined\<close>. Validation succeeds exactly when username, secret
  and projectId are all non-empty, so it rejects empty strings and after it has succeeded the
  three are non-empty.
\<close>

theorem empty_header_as_absent:
  "parseTenantCredentials (inbound\<lparr> headers_get := (headers_get inbound)(name := Some []) \<rparr>)
     = parseTenantCredentials (inbound\<lparr> headers_get := (headers_get inbound)(name := None) \<rparr>)
   \<and> (headers_get inbound ''X-Mixpanel-Service-Account-Username'' = None
        \<longrightarrow> username (parseTenantCredentials inbound) = [])
   \<and> (headers_get inbound ''X-Mixpanel-Service-Account-Secret'' = None
        \<longrightarrow> secret (parseTenantCredentials inbound) = [])
   \<and> (headers_get inbound ''X-Mixpanel-Project-Id'' = None
        \<longrightarrow> projectId (parseTenantCredentials inbound) = [])
   \<and> (headers_get inbound ''X-Mixpanel-Project-Token'' = Some []
        \<longrightarrow> projectToken (parseTenantCredentials inbound) = None)
   \<and> (validateCredentials c = Inr () \<longleftrightarrow> username c \<noteq> [] \<and> secret c \<noteq> [] \<and> projectId c \<noteq> [])
   \<and> (validateCredentials (parseTenantCredentials inbound) = Inr ()
        \<longrightarrow> username (parseTenantCredentials inbound) \<noteq> []
            \<and> secret (parseTenantCredentials inbound) \<noteq> []
            \<and> projectId (parseTenantCredentials inbound) \<noteq> [])"
proof -
  have 1: "parseTenantCredentials (inbound\<lparr> headers_get := (headers_get inbound)(name := Some []) \<rparr>)
     = parseTenantCredentials (inbound\<lparr> headers_get := (headers_get inbound)(name := None) \<rparr>)"
    by (simp add: parseTenantCredentials_def or_empty_def or_undefined_def truthy_str_def
        toLowerCase_def)
  have 2: "\<And>h. headers_get inbound h = None \<Longrightarrow> or_empty (headers_get inbound h) = []"
    by (simp add: or_empty_def truthy_str_def)
  have 3: "headers_get inbound ''X-Mixpanel-Project-Token'' = Some []
        \<longrightarrow> projectToken (parseTenantCredentials inbound) = None"
    by (simp add: parseTenantCredentials_def Let_def or_undefined_def truthy_str_def)
  have 4: "\<And>c. validateCredentials c = Inr () \<longleftrightarrow> username c \<noteq> [] \<and> secret c \<noteq> [] \<and> projectId c \<noteq> []"
    by (rule validateCredentials_Inr)
  show ?thesis
    using 1 2 3 4 by (simp add: parseTenantCredentials_def Let_def)
qed

theorem empty_header_as_absent_witness:
  "validateCredentials (parseTenantCredentials
      \<lparr> pathname = ''/mcp'', http_method = ''POST'',
        headers_get = [''X-Mixpanel-Service-Account-Username'' \<mapsto> ''svc'',
                       ''X-Mixpanel-Service-Account-Secret'' \<mapsto> ''shh'',
                       ''X-Mixpanel-Project-Id'' \<mapsto> ''123'',
                       ''X-Mixpanel-Project-Token'' \<mapsto> []] \<rparr>) = Inr ()
   \<and> parseTenantCredentials
      \<lparr> pathname = ''/mcp'', http_method = ''POST'',
        headers_get = [''X-Mixpanel-Service-Account-Username'' \<mapsto> ''svc'',
                       ''X-Mixpanel-Service-Account-Secret'' \<mapsto> ''shh'',
                       ''X-Mixpanel-Project-Id'' \<mapsto> ''123'',
                       ''X-Mixpanel-Project-Token'' \<mapsto> []] \<rparr>
     = \<lparr> username = ''svc'', secret = ''shh'', projectId = ''123'', projectToken = None,
         euResident = Some False \<rparr>
   \<and> parseTenantCredentials
        \<lparr> pathname = ''/mcp'', http_method = ''POST'', headers_get = Map.empty \<rparr>
     = \<lparr> username = [], secret = [], projectId = [], projectToken = None,
         euResident = Some False \<rparr>"
proof -
  let ?full = "\<lparr> pathname = ''/mcp'', http_method = ''POST'',
                 headers_get = [''X-Mixpanel-Service-Account-Username'' \<mapsto> ''svc'',
                                ''X-Mixpanel-Service-Account-Secret'' \<mapsto> ''shh'',
                                ''X-Mixpanel-Project-Id'' \<mapsto> ''123'',
                                ''X-Mixpanel-Project-Token'' \<mapsto> []] \<rparr>"
  let ?none = "\<lparr> pathname = ''/mcp'', http_method = ''POST'', headers_get = Map.empty \<rparr>"
  let ?c = "\<lparr> username = ''svc'', secret = ''shh'', projectId = ''123'', projectToken = None,
              euResident = Some False \<rparr>"
  note full_facts = empty_header_as_absent[of ?full "''X-Mixpanel-Project-Token''" ?c]
  note none_facts = empty_header_as_absent[of ?none "''X-Mixpanel-Project-Token''" ?c]
  have t: "projectToken (parseTenantCredentials ?full) = None"
    using full_facts[THEN conjunct2, THEN conjunct2, THEN conjunct2, THEN conjunct2,
        THEN conjunct1]
    by simp
  have f: "username (parseTenantCredentials ?full) = ''svc''"
    "secret (parseTenantCredentials ?full) = ''shh''"
    "projectId (parseTenantCredentials ?full) = ''123''"
    "euResident (parseTenantCredentials ?full) = Some False"
    by (simp_all add: parseTenantCredentials_def or_empty_def truthy_str_def)
  have full: "parseTenantCredentials ?full = ?c"
    using t f by (cases "parseTenantCredentials ?full") simp
  have v: "validateCredentials ?c = Inr ()"
    using full_facts[THEN conjunct2, THEN conjunct2, THEN conjunct2, THEN conjunct2,
        THEN conjunct2, THEN conjunct1]
    by simp
  have n: "username (parseTenantCredentials ?none) = []"
    "secret (parseTenantCredentials ?none) = []"
    "projectId (parseTenantCredentials ?none) = []"
    using none_facts[THEN conjunct2, THEN conjunct1]
      none_facts[THEN conjunct2, THEN conjunct2, THEN conjunct1]
      none_facts[THEN conjunct2, THEN conjunct2, THEN conjunct2, THEN conjunct1]
    by simp_all
  have n': "projectToken (parseTenantCredentials ?none) = None"
    "euResident (parseTenantCredentials ?none) = Some False"
    by (simp_all add: parseTenantCredentials_def or_undefined_def truthy_str_def)
  have none: "parseTenantCredentials ?none
                = \<lparr> username = [], secret = [], projectId = [], projectToken = None,
                    euResident = Some False \<rparr>"
    using n n' by (cases "parseTenantCredentials ?none") simp
  from full v none show ?thesis by simp
qed

section \<open>The HTTP calls of an operation\<close>

lemma snd_await_fetch: "snd (await_fetch fetch req k) = [req]"
  by (simp add: await_fetch_def split: sum.split)

lemma snd_request:
  "snd (request c fetch baseUrl endpoint options) =
     [\<lparr> req_url = baseUrl @ endpoint, req_method = init_method options,
        req_headers = js_object (getAuthHeaders c
                        @ (case init_headers options of None \<Rightarrow> [] | Some h \<Rightarrow> h)),
        req_body = init_body options \<rparr>]"
  by (simp add: request_def Let_def snd_await_fetch)

lemma snd_post_status:
  "snd (post_status fetch url payload) =
     [\<lparr> req_url = url, req_method = Some ''POST'',
        req_headers = [(''Content-Type'', ''application/json'')],
        req_body = Some (JSON_stringify payload) \<rparr>]"
  by (simp add: post_status_def snd_await_fetch)

lemma url_requestIngestion:
  "map req_url (snd (requestIngestion c fetch endpoint data tok)) = [getIngestionApiUrl c @ endpoint]"
  by (simp add: requestIngestion_def Let_def snd_await_fetch)

lemma snd_reshaped: "snd (reshaped out f) = snd out"
  by (cases out) (simp add: reshaped_def split: sum.split)

lemma snd_succeeded: "snd (succeeded out) = snd out"
  by (cases out) (simp add: succeeded_def split: sum.split)

lemma snd_passed_on:
  "snd (case x of (Inl e, calls) \<Rightarrow> (f e, calls) | (Inr v, calls) \<Rightarrow> (g v, calls)) = snd x"
  by (cases x) (simp split: sum.split)

lemmas request_ops_defs =
  queryInsights_def createDataRetrieval_def getDataRetrievalStatus_def createDataDeletion_def
  getDataDeletionStatus_def cancelDataDeletion_def
  querySegmentation_def querySegmentationNumeric_def querySegmentationSum_def
  querySegmentationAverage_def getFunnel_def listFunnels_def getRetention_def getFrequency_def
  queryProfiles_def getProfile_def getProfileActivity_def getTopEvents_def getEventNames_def
  getEventProperties_def getPropertyValues_def getTopPropertyValues_def queryEvents_def
  listCohorts_def executeJQL_def listAnnotations_def createAnnotation_def getAnnotation_def
  updateAnnotation_def deleteAnnotation_def listLookupTables_def listSchemas_def getSchema_def
  createOrUpdateSchema_def deleteSchema_def

lemmas base_urls =
  surface_url_def getMixpanelApiUrl_def getIngestionApiUrl_def getDataApiUrl_def getAppApiUrl_def
  MIXPANEL_API_URL_def EU_MIXPANEL_API_URL_def INGESTION_API_URL_def EU_INGESTION_API_URL_def
  DATA_API_URL_def EU_DATA_API_URL_def APP_API_URL_def EU_APP_API_URL_def

lemma run_urls:
  "list_all (\<lambda>u. prefix (surface_url (surface_of op) (euResident c = Some True)) u)
     (map req_url (snd (run c w op)))"
proof (cases op)
  case (ExportEvents p)
  then show ?thesis by (simp add: exportEvents_def Let_def snd_await_fetch base_urls)
next
  case (TrackEvent p)
  then show ?thesis by (simp add: trackEvent_def Let_def snd_post_status base_urls)
next
  case (TrackEvents es)
  then show ?thesis by (simp add: trackEvents_def Let_def snd_post_status base_urls)
next
  case (ImportEvents es)
  then show ?thesis by (simp add: importEvents_def Let_def url_requestIngestion base_urls)
next
  case (CreateOrReplaceLookupTable t rows)
  then show ?thesis
    by (cases rows) (simp_all add: createOrReplaceLookupTable_def Let_def snd_await_fetch base_urls)
next
  case TestConnection
  then show ?thesis by (simp add: testConnection_def snd_passed_on snd_request base_urls)
qed (simp_all add: request_ops_defs setProfileProperties_def setProfilePropertiesOnce_def
      incrementProfileProperties_def appendToProfileList_def removeFromProfileList_def
      unionToProfileList_def unsetProfileProperties_def deleteProfile_def engageRequest_def
      setGroupProperties_def setGroupPropertiesOnce_def unsetGroupProperties_def deleteGroup_def
      groupRequest_def createIdentity_def createAlias_def mergeIdentities_def
      Let_def snd_post_status snd_request snd_reshaped snd_succeeded base_urls)

section \<open>EU residency\<close>

text \<open>
  C2. The flag of the parsed credentials is true exactly when the EU-residency header is
  present and reads \<open>true\<close> up to the case of its letters. On those credentials each of the
  four base-URL getters gives the EU variant of its surface when the flag is true and the
  standard variant otherwise; \<open>request\<close> calls the base URL it is given, followed by the
  endpoint; and the URL of every HTTP call of every operation of the client starts with the
  base URL of that operation's surface in that variant.
\<close>

theorem eu_residency:
  "euResident (parseTenantCredentials inbound) = Some (eu_header_true inbound)
   \<and> getMixpanelApiUrl (parseTenantCredentials inbound) = surface_url Query (eu_header_true inbound)
   \<and> getIngestionApiUrl (parseTenantCredentials inbound) = surface_url Ingestion (eu_header_true inbound)
   \<and> getDataApiUrl (parseTenantCredentials inbound) = surface_url DataExport (eu_header_true inbound)
   \<and> getAppApiUrl (parseTenantCredentials inbound) = surface_url App (eu_header_true inbound)
   \<and> map req_url (snd (request (parseTenantCredentials inbound) fetch baseUrl endpoint options))
       = [baseUrl @ endpoint]
   \<and> (\<forall>req \<in> set (snd (run (parseTenantCredentials inbound) w op)).
         prefix (surface_url (surface_of op) (eu_header_true inbound)) (req_url req))"
proof -
  have flag: "euResident (parseTenantCredentials inbound) = Some (eu_header_true inbound)"
    by (cases "headers_get inbound ''X-Mixpanel-EU-Resident''")
       (simp_all add: parseTenantCredentials_def Let_def eu_header_true_def toLowerCase_true)
  then have eq: "(euResident (parseTenantCredentials inbound) = Some True) = eu_header_true inbound"
    by simp
  have getters:
    "getMixpanelApiUrl (parseTenantCredentials inbound) = surface_url Query (eu_header_true inbound)"
    "getIngestionApiUrl (parseTenantCredentials inbound) = surface_url Ingestion (eu_header_true inbound)"
    "getDataApiUrl (parseTenantCredentials inbound) = surface_url DataExport (eu_header_true inbound)"
    "getAppApiUrl (parseTenantCredentials inbound) = surface_url App (eu_header_true inbound)"
    unfolding base_urls eq by simp_all
  have req: "map req_url (snd (request (parseTenantCredentials inbound) fetch baseUrl endpoint options))
       = [baseUrl @ endpoint]"
    by (simp add: snd_request)
  have "\<forall>req \<in> set (snd (run (parseTenantCredentials inbound) w op)).
          prefix (surface_url (surface_of op) (eu_header_true inbound)) (req_url req)"
    using run_urls[of op "parseTenantCredentials inbound" w] unfolding eq
    by (simp add: list_all_iff)
  with flag getters req show ?thesis by blast
qed

theorem eu_residency_witness:
  "euResident (parseTenantCredentials
      \<lparr> pathname = ''/mcp'', http_method = ''POST'',
        headers_get = [''X-Mixpanel-Project-Token'' \<mapsto> ''tok'',
                       ''X-Mixpanel-EU-Resident'' \<mapsto> ''TRUE''] \<rparr>) = Some True
   \<and> getDataApiUrl (parseTenantCredentials
        \<lparr> pathname = ''/mcp'', http_method = ''POST'',
          headers_get = [''X-Mixpanel-Project-Token'' \<mapsto> ''tok'',
                         ''X-Mixpanel-EU-Resident'' \<mapsto> ''TRUE''] \<rparr>)
       = ''https://data-eu.mixpanel.com/api/2.0''
   \<and> map req_url (snd (run (parseTenantCredentials
          \<lparr> pathname = ''/mcp'', http_method = ''POST'',
            headers_get = [''X-Mixpanel-Project-Token'' \<mapsto> ''tok'',
                           ''X-Mixpanel-EU-Resident'' \<mapsto> ''TRUE''] \<rparr>)
        \<lparr> w_fetch = (\<lambda>req. Inl (Error ''offline'')), w_now = (\<lambda>i. 0),
          w_JSON_parse = (\<lambda>l. None), w_formatError = (\<lambda>e. []),
          w_Object_prototype = (\<lambda>h. None) \<rparr>
        (GetDataDeletionStatus ''r1'')))
       = [''https://eu.mixpanel.com/api/app/data-deletions/v3.0/r1?token=tok'']
   \<and> prefix ''https://eu.mixpanel.com/api/app''
         ''https://eu.mixpanel.com/api/app/data-deletions/v3.0/r1?token=tok''"
proof -
  let ?r = "\<lparr> pathname = ''/mcp'', http_method = ''POST'',
              headers_get = [''X-Mixpanel-Project-Token'' \<mapsto> ''tok'',
                             ''X-Mixpanel-EU-Resident'' \<mapsto> ''TRUE''] \<rparr>"
  let ?w = "\<lparr> w_fetch = (\<lambda>req. Inl (Error ''offline'')), w_now = (\<lambda>i. 0),
              w_JSON_parse = (\<lambda>l. None), w_formatError = (\<lambda>e. []),
              w_Object_prototype = (\<lambda>h. None) \<rparr>"
  have t: "eu_header_true ?r"
    by (simp add: eu_header_true_def true_ignoring_case_def)
  have p: "projectToken (parseTenantCredentials ?r) = Some ''tok''"
    by (simp add: parseTenantCredentials_def or_undefined_def truthy_str_def)
  note inst = eu_residency[of ?r "w_fetch ?w" "[]" "[]" no_init ?w "GetDataDeletionStatus ''r1''"]
  from inst t have app: "getAppApiUrl (parseTenantCredentials ?r) = ''https://eu.mixpanel.com/api/app''"
    by (simp add: surface_url_def)
  have calls: "map req_url (snd (run (parseTenantCredentials ?r) ?w (GetDataDeletionStatus ''r1'')))
                 = [''https://eu.mixpanel.com/api/app/data-deletions/v3.0/r1?token=tok'']"
    by (simp add: getDataDeletionStatus_def snd_request app p template_def)
  from inst t calls show ?thesis
    by (simp add: surface_url_def)
qed

section \<open>The project token\<close>

lemma token_required_messages:
  "token_required (Inl (ApiError ''Project token required for tracking events. Set X-Mixpanel-Project-Token header.'' None))"
  "token_required (Inl (ApiError ''Project token required for importing events. Set X-Mixpanel-Project-Token header.'' None))"
  "token_required (Inl (ApiError ''Project token required for profile operations. Set X-Mixpanel-Project-Token header.'' None))"
  "token_required (Inl (ApiError ''Project token required for group operations. Set X-Mixpanel-Project-Token header.'' None))"
  "token_required (Inl (ApiError ''Project token required for identity operations. Set X-Mixpanel-Project-Token header.'' None))"
  "token_required (Inl (ApiError ''Project token required for alias operations. Set X-Mixpanel-Project-Token header.'' None))"
  "token_required (Inl (ApiError ''Project token required for merge operations. Set X-Mixpanel-Project-Token header.'' None))"
  by code_simp+

lemma token_guard:
  assumes "token_guarded op" and "\<not> truthy_str (projectToken c)"
  shows "token_required (fst (run c w op)) \<and> snd (run c w op) = []"
  using assms
  by (cases op)
     (simp_all add: token_guarded_def token_required_messages trackEvent_def trackEvents_def
       importEvents_def setProfileProperties_def setProfilePropertiesOnce_def
       incrementProfileProperties_def appendToProfileList_def removeFromProfileList_def
       unionToProfileList_def unsetProfileProperties_def deleteProfile_def engageRequest_def
       setGroupProperties_def setGroupPropertiesOnce_def unsetGroupProperties_def deleteGroup_def
       groupRequest_def createIdentity_def createAlias_def mergeIdentities_def)

text \<open>
  C1 says that every ingestion-class operation (event tracking, profile and group mutation,
  identity linking, GDPR requests) on credentials without a project token fails with a
  token-required error and issues no HTTP call. The tracking, import, profile, group and
  identity operations do stop at the token check (\<open>token_guard\<close>). The GDPR operations have
  no such check: without a project token, a data-retrieval request is sent all the same, with
  the text \<open>undefined\<close> as its token.
\<close>

theorem gdpr_without_token_calls:
  \<open>snd (run \<lparr> username = ''svc'', secret = ''shh'', projectId = ''123'', projectToken = None,
               euResident = Some False \<rparr> w (CreateDataRetrieval [''u1''] None))
     = [\<lparr> req_url = ''https://mixpanel.com/api/app/data-retrievals/v3.0?token=undefined'',
          req_method = Some ''POST'',
          req_headers = [(''Authorization'', ''Basic c3ZjOnNoaA==''),
                         (''Content-Type'', ''application/json''),
                         (''Accept'', ''application/json'')],
          req_body = Some ''{"distinct_ids":["u1"]}'' \<rparr>]\<close>
proof -
  let ?c = "\<lparr> username = ''svc'', secret = ''shh'', projectId = ''123'', projectToken = None,
              euResident = Some False \<rparr>"
  let ?sent = "\<lparr> req_url = getAppApiUrl ?c @ ''/data-retrievals/v3.0?token='' @ template (projectToken ?c),
                 req_method = Some ''POST'',
                 req_headers = js_object (getAuthHeaders ?c),
                 req_body = Some (JSON_stringify (JObj (js_object
                              [(''distinct_ids'', JArr (map JStr [''u1'']))]))) \<rparr>"
  have 1: "snd (run ?c w (CreateDataRetrieval [''u1''] None)) = [?sent]"
    by (simp add: createDataRetrieval_def snd_request)
  have 2: \<open>?sent = \<lparr> req_url = ''https://mixpanel.com/api/app/data-retrievals/v3.0?token=undefined'',
          req_method = Some ''POST'',
          req_headers = [(''Authorization'', ''Basic c3ZjOnNoaA==''),
                         (''Content-Type'', ''application/json''),
                         (''Accept'', ''application/json'')],
          req_body = Some ''{"distinct_ids":["u1"]}'' \<rparr>\<close>
    by code_simp
  show ?thesis unfolding 1 2 ..
qed



section \<open>Reading the response\<close>

lemma fst_await_fetch: "fst (await_fetch (\<lambda>req. Inr response) req k) = k response"
  by (simp add: await_fetch_def)

lemma fst_request: "fst (request c (\<lambda>req. Inr response) baseUrl endpoint options) = request_response response"
  by (simp add: request_def Let_def fst_await_fetch)

lemma fst_post_status:
  "fst (post_status (\<lambda>req. Inr response) url payload) = Inr (Status (if ok response then 1 else 0))"
  by (simp add: post_status_def fst_await_fetch)

lemma fst_requestIngestion:
  "fst (requestIngestion c (\<lambda>req. Inr response) endpoint data tok) =
     (if resp_status response = 429 then Inl (RateLimitError ''Rate limit exceeded'' (Num 60))
      else if \<not> ok response then
        Inl (ApiError (''Ingestion API error: '' @ show_nat (resp_status response)
                        @ '' - '' @ resp_text response) (Some (resp_status response)))
      else (case resp_json response of None \<Rightarrow> Inl SyntaxError | Some j \<Rightarrow> Inr (Parsed j)))"
  by (simp add: requestIngestion_def Let_def fst_await_fetch)

lemma fst_reshaped:
  "fst (reshaped out f) =
     (case fst out of
        Inl e \<Rightarrow> Inl e
      | Inr r \<Rightarrow> (case f (data_of r) of Inl e \<Rightarrow> Inl e | Inr v \<Rightarrow> Inr (Shaped v)))"
  by (cases out) (simp add: reshaped_def split: sum.split)

lemma fst_succeeded:
  "fst (succeeded out) = (case fst out of Inl e \<Rightarrow> Inl e | Inr r \<Rightarrow> Inr Success)"
  by (cases out) (simp add: succeeded_def split: sum.split)

lemma fst_passed_on:
  "fst (case x of (Inl e, calls) \<Rightarrow> (f e, calls) | (Inr v, calls) \<Rightarrow> (g v, calls)) =
     (case fst x of Inl e \<Rightarrow> f e | Inr v \<Rightarrow> g v)"
  by (cases x) (simp split: sum.split)

lemma w_fetch_replies: "w_fetch (replies w response) = (\<lambda>req. Inr response)"
  by (simp add: replies_def)

lemma w_formatError_replies: "w_formatError (replies w response) = w_formatError w"
  by (simp add: replies_def)

lemma not_ok_429: "resp_status response = 429 \<Longrightarrow> \<not> ok response"
  by (simp add: ok_def)

lemma numeric_head:
  assumes "numeric v"
  shows "\<exists>d ds. v = d # ds \<and> is_digit d \<and> list_all is_digit ds"
  using assms by (cases v) (simp_all add: numeric_def)

lemma digit_not_space: "is_digit d \<Longrightarrow> \<not> is_js_space d"
  by (auto simp: is_digit_def is_js_space_def)

lemma digit_not_sign: "is_digit d \<Longrightarrow> d \<noteq> CHR ''-'' \<and> d \<noteq> CHR ''+''"
  by (auto simp: is_digit_def)

lemma takeWhile_all: "list_all P xs \<Longrightarrow> takeWhile P xs = xs"
  by (induction xs) simp_all

lemma parseInt_numeric:
  assumes "numeric v"
  shows "parseInt v = Num (digits_val v)"
proof -
  from numeric_head[OF assms] obtain d ds where
    v: "v = d # ds" and d: "is_digit d" and ds: "list_all is_digit ds" by blast
  have tw: "takeWhile is_digit ds = ds"
    using ds by (rule takeWhile_all)
  show ?thesis
    using d digit_not_space[OF d] digit_not_sign[OF d]
    by (simp add: parseInt_def v tw)
qed

lemma request_response_429:
  assumes "resp_status response = 429" and "retry_after_plain response"
  shows "request_response response
           = Inl (RateLimitError ''Rate limit exceeded'' (retry_after_stated response))"
proof (cases "resp_header response ''Retry-After''")
  case None
  then show ?thesis
    using assms(1) by (simp add: request_response_def retry_after_stated_def truthy_str_def)
next
  case (Some v)
  show ?thesis
  proof (cases "v = []")
    case True
    then show ?thesis
      using assms(1) Some
      by (simp add: request_response_def retry_after_stated_def truthy_str_def numeric_def)
  next
    case False
    with assms(2) Some have "numeric v" by (simp add: retry_after_plain_def)
    then show ?thesis
      using assms(1) Some False
      by (simp add: request_response_def retry_after_stated_def truthy_str_def parseInt_numeric)
  qed
qed

lemma request_response_failure:
  assumes "\<not> ok response" and "resp_status response \<noteq> 429"
  shows "request_response response = Inl (request_failure response)"
  using assms by (simp add: request_response_def request_failure_def)

lemmas status_ops_defs =
  trackEvent_def trackEvents_def importEvents_def
  setProfileProperties_def setProfilePropertiesOnce_def incrementProfileProperties_def
  appendToProfileList_def removeFromProfileList_def unionToProfileList_def
  unsetProfileProperties_def deleteProfile_def engageRequest_def
  setGroupProperties_def setGroupPropertiesOnce_def unsetGroupProperties_def deleteGroup_def
  groupRequest_def createIdentity_def createAlias_def mergeIdentities_def

lemma fst_run_request:
  assumes "handling_of op = ViaRequest" and "request_response response = Inl e"
  shows "fst (run c (replies w response) op) = Inl e"
  using assms
  by (cases op)
     (simp_all add: request_ops_defs Let_def w_fetch_replies fst_request fst_reshaped
       fst_succeeded)

lemma fst_run_status:
  assumes "handling_of op = StatusFlag" and "sends c op"
  shows "fst (run c (replies w response) op) = Inr (Status (if ok response then 1 else 0))"
  using assms
  by (cases op)
     (simp_all add: status_ops_defs Let_def w_fetch_replies fst_post_status sends_def
       token_guarded_def)

lemma fst_run_import:
  assumes "handling_of op = ViaIngestion" and "sends c op" and "\<not> ok response"
  shows "fst (run c (replies w response) op) =
     (if resp_status response = 429 then Inl (RateLimitError ''Rate limit exceeded'' (Num 60))
      else Inl (ApiError (''Ingestion API error: '' @ show_nat (resp_status response)
                        @ '' - '' @ resp_text response) (Some (resp_status response))))"
  using assms
  by (cases op)
     (simp_all add: status_ops_defs Let_def w_fetch_replies fst_requestIngestion sends_def
       token_guarded_def)

lemma fst_run_export:
  assumes "handling_of op = ViaExport" and "\<not> ok response"
  shows "fst (run c (replies w response) op) =
     (if resp_status response = 429 then Inl (RateLimitError ''Rate limit exceeded'' (Num 60))
      else Inl (ApiError (''Export failed: '' @ show_nat (resp_status response)
                        @ '' - '' @ resp_text response) (Some (resp_status response))))"
  using assms
  by (cases op) (simp_all add: exportEvents_def Let_def w_fetch_replies fst_await_fetch)

lemma fst_run_lookup:
  assumes "handling_of op = Lookup" and "sends c op" and "\<not> ok response"
  shows "fst (run c (replies w response) op) =
     Inl (ApiError (''Failed to create lookup table: '' @ resp_text response)
           (Some (resp_status response)))"
  using assms
  by (cases op)
     (simp_all add: createOrReplaceLookupTable_def Let_def w_fetch_replies fst_await_fetch
       sends_def split: list.split)

lemma fst_run_caught:
  assumes "handling_of op = Caught"
  shows "fst (run c (replies w response) op) =
           (case request_response response of
              Inl e \<Rightarrow> Inr (Connection False (w_formatError w e))
            | Inr v \<Rightarrow> Inr (Connection True ''Connected to Mixpanel''))"
  using assms
  by (cases op)
     (simp_all add: testConnection_def w_fetch_replies w_formatError_replies fst_request
       fst_passed_on split: sum.split)


section \<open>Rate limits\<close>

text \<open>
  C3 (as amended). When every call is answered with status 429: an operation that goes through
  \<open>request\<close> throws a rate-limit error whose retry-after value is the number in the
  Retry-After header when that header is a non-empty string of digits, and 60 when the header
  is absent or empty; \<open>importEvents\<close> and \<open>exportEvents\<close> throw a rate-limit error whose
  retry-after value is 60 whatever the header says; the tracking, profile, group and identity
  operations throw nothing and return status 0; lookup-table creation throws the generic API
  error with status 429; \<open>testConnection\<close> returns the formatted error as a failed connection.
  The same holds of \<open>request\<close> itself, whatever its caller.
\<close>

theorem rate_limit_handling:
  assumes "resp_status response = 429" and "sends c op"
    and "handling_of op = ViaRequest \<or> handling_of op = Caught \<Longrightarrow> retry_after_plain response"
  shows "fst (run c (replies w response) op) = after_429 w response (handling_of op)
         \<and> (retry_after_plain response \<longrightarrow>
              fst (request c (\<lambda>req. Inr response) baseUrl endpoint options)
                = after_429 w response ViaRequest)"
proof -
  have run: "fst (run c (replies w response) op) = after_429 w response (handling_of op)"
  proof (cases "handling_of op")
    case ViaRequest
    with assms(3) have "retry_after_plain response" by simp
    then show ?thesis
      using ViaRequest fst_run_request[OF ViaRequest request_response_429[OF assms(1)], of c w]
      by (simp add: after_429_def)
  next
    case ViaIngestion
    then show ?thesis
      using fst_run_import[OF ViaIngestion assms(2) not_ok_429[OF assms(1)], of w] assms(1)
      by (simp add: after_429_def)
  next
    case ViaExport
    then show ?thesis
      using fst_run_export[OF ViaExport not_ok_429[OF assms(1)], of c w] assms(1)
      by (simp add: after_429_def)
  next
    case StatusFlag
    then show ?thesis
      using fst_run_status[OF StatusFlag assms(2), of w response] not_ok_429[OF assms(1)]
      by (simp add: after_429_def)
  next
    case Lookup
    then show ?thesis
      using fst_run_lookup[OF Lookup assms(2) not_ok_429[OF assms(1)], of w] assms(1)
      by (simp add: after_429_def)
  next
    case Caught
    with assms(3) have "retry_after_plain response" by simp
    then show ?thesis
      using Caught fst_run_caught[OF Caught, of c w response] request_response_429[OF assms(1)]
      by (simp add: after_429_def)
  qed
  have "retry_after_plain response \<longrightarrow>
          fst (request c (\<lambda>req. Inr response) baseUrl endpoint options)
            = after_429 w response ViaRequest"
    using request_response_429[OF assms(1)] by (simp add: fst_request after_429_def)
  with run show ?thesis by blast
qed

theorem rate_limit_handling_witness:
  "fst (run \<lparr> username = ''svc'', secret = ''shh'', projectId = ''123'', projectToken = None,
               euResident = Some False \<rparr>
            (replies \<lparr> w_fetch = (\<lambda>req. Inl (Error ''offline'')), w_now = (\<lambda>i. 0),
                       w_JSON_parse = (\<lambda>l. None), w_formatError = (\<lambda>e. []),
                       w_Object_prototype = (\<lambda>h. None) \<rparr>
                     \<lparr> resp_status = 429, resp_header = [''Retry-After'' \<mapsto> ''120''],
                       resp_text = [], resp_json = None \<rparr>)
            (GetDataDeletionStatus ''r1''))
     = Inl (RateLimitError ''Rate limit exceeded'' (Num 120))"
proof -
  let ?c = "\<lparr> username = ''svc'', secret = ''shh'', projectId = ''123'', projectToken = None,
              euResident = Some False \<rparr>"
  let ?r = "\<lparr> resp_status = 429, resp_header = [''Retry-After'' \<mapsto> ''120''],
              resp_text = [], resp_json = None \<rparr>"
  have d: "digits_val ''120'' = 120" by (simp add: digits_val_def)
  have n: "numeric ''120''" by (simp add: numeric_def is_digit_def)
  have 1: "resp_status ?r = 429" by simp
  have 2: "sends ?c (GetDataDeletionStatus ''r1'')" by (simp add: sends_def token_guarded_def)
  have 3: "retry_after_plain ?r" using n d by (simp add: retry_after_plain_def)
  have 4: "after_429 w ?r (handling_of (GetDataDeletionStatus ''r1''))
             = Inl (RateLimitError ''Rate limit exceeded'' (Num 120))" for w
    using n d by (simp add: after_429_def retry_after_stated_def)
  show ?thesis
    using rate_limit_handling[OF 1 2 3] 4 by simp
qed

theorem retry_after_counterexample:
  "\<not> rate_limited
       (retry_after_stated \<lparr> resp_status = 429, resp_header = [''Retry-After'' \<mapsto> ''120''],
                             resp_text = [], resp_json = None \<rparr>)
       (fst (run \<lparr> username = ''svc'', secret = ''shh'', projectId = ''123'',
                    projectToken = Some ''tok'', euResident = Some False \<rparr>
                 (replies \<lparr> w_fetch = (\<lambda>req. Inl (Error ''offline'')), w_now = (\<lambda>i. 0),
                            w_JSON_parse = (\<lambda>l. None), w_formatError = (\<lambda>e. []),
                            w_Object_prototype = (\<lambda>h. None) \<rparr>
                          \<lparr> resp_status = 429, resp_header = [''Retry-After'' \<mapsto> ''120''],
                            resp_text = [], resp_json = None \<rparr>)
                 (ImportEvents [])))"
proof -
  let ?c = "\<lparr> username = ''svc'', secret = ''shh'', projectId = ''123'',
              projectToken = Some ''tok'', euResident = Some False \<rparr>"
  let ?r = "\<lparr> resp_status = 429, resp_header = [''Retry-After'' \<mapsto> ''120''],
              resp_text = [], resp_json = None \<rparr>"
  have d: "digits_val ''120'' = 120" by (simp add: digits_val_def)
  have n: "numeric ''120''" by (simp add: numeric_def is_digit_def)
  have s: "retry_after_stated ?r = Num 120"
    using n d by (simp add: retry_after_stated_def)
  have 2: "sends ?c (ImportEvents [])" by (simp add: sends_def truthy_str_def)
  have "fst (run ?c (replies w ?r) (ImportEvents [])) = Inl (RateLimitError ''Rate limit exceeded'' (Num 60))" for w
    using fst_run_import[of "ImportEvents []" ?c ?r w] 2 by (simp add: ok_def)
  then show ?thesis
    unfolding s by (simp add: rate_limited_def)
qed

section \<open>Other failures\<close>

lemma request_failure_as_stated: "failure_stated response (Inl (request_failure response))"
proof -
  have "sublist (resp_text response)
          ((''API error: '' @ show_nat (resp_status response) @ '' - '') @ resp_text response @ [])"
    by (rule sublist_appendI)
  then show ?thesis
    by (simp add: failure_stated_def request_failure_def)
qed

text \<open>
  C4 (as amended). When every call is answered with a status outside 2xx other than 429: an
  operation that goes through \<open>request\<close> throws an authentication failure on 401 and 403 and
  otherwise an API error with the status and a message ending in the body text, which is
  what the claim states; \<open>importEvents\<close>, \<open>exportEvents\<close> and lookup-table creation throw an
  API error with the status and the body text on every such status, 401 and 403 included; the
  tracking, profile, group and identity operations throw nothing and return status 0;
  \<open>testConnection\<close> returns the formatted error as a failed connection.
\<close>

theorem failure_handling:
  assumes "\<not> ok response" and "resp_status response \<noteq> 429" and "sends c op"
  shows "fst (run c (replies w response) op) = after_failure w response (handling_of op)
         \<and> fst (request c (\<lambda>req. Inr response) baseUrl endpoint options)
             = Inl (request_failure response)
         \<and> failure_stated response (Inl (request_failure response))"
proof -
  have run: "fst (run c (replies w response) op) = after_failure w response (handling_of op)"
  proof (cases "handling_of op")
    case ViaRequest
    then show ?thesis
      using fst_run_request[OF ViaRequest request_response_failure[OF assms(1,2)], of c w]
      by (simp add: after_failure_def)
  next
    case ViaIngestion
    then show ?thesis
      using fst_run_import[OF ViaIngestion assms(3,1), of w] assms(2)
      by (simp add: after_failure_def)
  next
    case ViaExport
    then show ?thesis
      using fst_run_export[OF ViaExport assms(1), of c w] assms(2)
      by (simp add: after_failure_def)
  next
    case StatusFlag
    then show ?thesis
      using fst_run_status[OF StatusFlag assms(3), of w response] assms(1)
      by (simp add: after_failure_def)
  next
    case Lookup
    then show ?thesis
      using fst_run_lookup[OF Lookup assms(3,1), of w]
      by (simp add: after_failure_def)
  next
    case Caught
    then show ?thesis
      using fst_run_caught[OF Caught, of c w response] request_response_failure[OF assms(1,2)]
      by (simp add: after_failure_def)
  qed
  have "fst (request c (\<lambda>req. Inr response) baseUrl endpoint options)
          = Inl (request_failure response)"
    using request_response_failure[OF assms(1,2)] by (simp add: fst_request)
  with run request_failure_as_stated show ?thesis by blast
qed

theorem failure_handling_witness:
  "fst (run \<lparr> username = ''svc'', secret = ''shh'', projectId = ''123'', projectToken = None,
               euResident = Some False \<rparr>
            (replies \<lparr> w_fetch = (\<lambda>req. Inl (Error ''offline'')), w_now = (\<lambda>i. 0),
                       w_JSON_parse = (\<lambda>l. None), w_formatError = (\<lambda>e. []),
                       w_Object_prototype = (\<lambda>h. None) \<rparr>
                     \<lparr> resp_status = 500, resp_header = Map.empty,
                       resp_text = ''boom'', resp_json = None \<rparr>)
            (GetDataDeletionStatus ''r1''))
     = Inl (ApiError ''API error: 500 - boom'' (Some 500))"
proof -
  let ?c = "\<lparr> username = ''svc'', secret = ''shh'', projectId = ''123'', projectToken = None,
              euResident = Some False \<rparr>"
  let ?r = "\<lparr> resp_status = 500, resp_header = Map.empty,
              resp_text = ''boom'', resp_json = None \<rparr>"
  have 1: "\<not> ok ?r" by (simp add: ok_def)
  have 2: "resp_status ?r \<noteq> 429" by simp
  have 3: "sends ?c (GetDataDeletionStatus ''r1'')" by (simp add: sends_def token_guarded_def)
  have n: "show_nat 500 = ''500''" by code_simp
  have 4: "after_failure w ?r (handling_of (GetDataDeletionStatus ''r1''))
             = Inl (ApiError ''API error: 500 - boom'' (Some 500))" for w
    by (simp add: after_failure_def request_failure_def n)
  show ?thesis
    using failure_handling[OF 1 2 3] 4 by simp
qed

theorem failure_swallowed_counterexample:
  "\<not> failure_stated
       \<lparr> resp_status = 500, resp_header = Map.empty, resp_text = ''boom'', resp_json = None \<rparr>
       (fst (run \<lparr> username = ''svc'', secret = ''shh'', projectId = ''123'',
                    projectToken = Some ''tok'', euResident = Some False \<rparr>
                 (replies \<lparr> w_fetch = (\<lambda>req. Inl (Error ''offline'')), w_now = (\<lambda>i. 0),
                            w_JSON_parse = (\<lambda>l. None), w_formatError = (\<lambda>e. []),
                            w_Object_prototype = (\<lambda>h. None) \<rparr>
                          \<lparr> resp_status = 500, resp_header = Map.empty,
                            resp_text = ''boom'', resp_json = None \<rparr>)
                 (TrackEvent \<lparr> te_event = ''Signup'', te_distinctId = ''u1'',
                              te_properties = None, te_time = None \<rparr>)))"
proof -
  let ?c = "\<lparr> username = ''svc'', secret = ''shh'', projectId = ''123'',
              projectToken = Some ''tok'', euResident = Some False \<rparr>"
  let ?r = "\<lparr> resp_status = 500, resp_header = Map.empty, resp_text = ''boom'',
              resp_json = None \<rparr>"
  let ?op = "TrackEvent \<lparr> te_event = ''Signup'', te_distinctId = ''u1'',
                          te_properties = None, te_time = None \<rparr>"
  have 2: "sends ?c ?op" by (simp add: sends_def truthy_str_def)
  have "fst (run ?c (replies w ?r) ?op) = Inr (Status 0)" for w
    using fst_run_status[of ?op ?c w ?r] 2 by (simp add: ok_def)
  then show ?thesis
    by (simp add: failure_stated_def)
qed



section \<open>Constructed requests\<close>

text \<open>
  C7. With credentials svc / shh / 123 and no EU residency (flag absent or false), the
  insights query for Signup from 2024-01-01 to 2024-01-31 issues one call: to the standard
  query base URL, path \<open>/insights\<close>, with the query parameters project_id=123,
  from_date=2024-01-01, to_date=2024-01-31 and event=["Signup"] in that order (on the wire
  the brackets and quotes of the last value are percent-encoded), and with the Authorization
  header \<open>Basic\<close> followed by the Base64 of \<open>svc:shh\<close>.
\<close>

theorem query_insights_request:
  \<open>(euR = None \<or> euR = Some False \<longrightarrow>
     snd (queryInsights
          \<lparr> username = ''svc'', secret = ''shh'', projectId = ''123'', projectToken = tok,
            euResident = euR \<rparr> fetch
          \<lparr> qi_fromDate = ''2024-01-01'', qi_toDate = ''2024-01-31'', qi_event = Some ''Signup'',
            qi_groupBy = None, qi_where = None, qi_interval = None \<rparr>)
     = [\<lparr> req_url = ''https://mixpanel.com/api/2.0'' @ ''/insights?''
                      @ ''project_id=123&from_date=2024-01-01&to_date=2024-01-31&event=%5B%22Signup%22%5D'',
          req_method = None,
          req_headers = [(''Authorization'', ''Basic '' @ btoa ''svc:shh''),
                         (''Content-Type'', ''application/json''),
                         (''Accept'', ''application/json'')],
          req_body = None \<rparr>])
   \<and> parse_query ''project_id=123&from_date=2024-01-01&to_date=2024-01-31&event=%5B%22Signup%22%5D''
       = [(''project_id'', ''123''), (''from_date'', ''2024-01-01''), (''to_date'', ''2024-01-31''),
          (''event'', ''["Signup"]'')]
   \<and> btoa ''svc:shh'' = ''c3ZjOnNoaA==''
   \<and> surface_url Query False = ''https://mixpanel.com/api/2.0''\<close>
proof -
  let ?c = "\<lparr> username = ''svc'', secret = ''shh'', projectId = ''123'', projectToken = tok,
              euResident = euR \<rparr>"
  let ?p = "\<lparr> qi_fromDate = ''2024-01-01'', qi_toDate = ''2024-01-31'', qi_event = Some ''Signup'',
              qi_groupBy = None, qi_where = None, qi_interval = None \<rparr>"
  let ?qs = "URLSearchParams_toString
               (URLSearchParams_set ''event'' (JSON_stringify (JArr [JStr ''Signup'']))
                  [(''project_id'', ''123''), (''from_date'', ''2024-01-01''),
                   (''to_date'', ''2024-01-31'')])"
  let ?hs = "js_object [(''Authorization'', ''Basic '' @ btoa (''svc'' @ '':'' @ ''shh'')),
                        (''Content-Type'', ''application/json''),
                        (''Accept'', ''application/json'')]"
  have 1: "snd (queryInsights ?c fetch ?p)
             = [\<lparr> req_url = getMixpanelApiUrl ?c @ ''/insights?'' @ ?qs, req_method = None,
                  req_headers = ?hs, req_body = None \<rparr>]"
    by (simp add: queryInsights_def snd_request truthy_str_def no_init_def getAuthHeaders_def
        del: JSON_stringify.simps btoa.simps)
  have 2: "?qs = ''project_id=123&from_date=2024-01-01&to_date=2024-01-31&event=%5B%22Signup%22%5D''"
    by code_simp
  have 3: "?hs = [(''Authorization'', ''Basic '' @ btoa ''svc:shh''),
                  (''Content-Type'', ''application/json''),
                  (''Accept'', ''application/json'')]"
    by code_simp
  have 4: "euR = None \<or> euR = Some False \<Longrightarrow> getMixpanelApiUrl ?c = ''https://mixpanel.com/api/2.0''"
    by (auto simp: getMixpanelApiUrl_def MIXPANEL_API_URL_def)
  have 5: \<open>parse_query ''project_id=123&from_date=2024-01-01&to_date=2024-01-31&event=%5B%22Signup%22%5D''
       = [(''project_id'', ''123''), (''from_date'', ''2024-01-01''), (''to_date'', ''2024-01-31''),
          (''event'', ''["Signup"]'')]\<close>
    by code_simp
  have 6: "btoa ''svc:shh'' = ''c3ZjOnNoaA==''" by code_simp
  have 7: "surface_url Query False = ''https://mixpanel.com/api/2.0''"
    by (simp add: surface_url_def)
  show ?thesis
    unfolding 1 2 3 using 4 5 6 7 by (simp del: btoa.simps)
qed


theorem query_insights_request_witness:
  \<open>snd (queryInsights
          \<lparr> username = ''svc'', secret = ''shh'', projectId = ''123'', projectToken = None,
            euResident = Some False \<rparr> (\<lambda>req. Inl (Error ''offline''))
          \<lparr> qi_fromDate = ''2024-01-01'', qi_toDate = ''2024-01-31'', qi_event = Some ''Signup'',
            qi_groupBy = None, qi_where = None, qi_interval = None \<rparr>)
     = [\<lparr> req_url = ''https://mixpanel.com/api/2.0/insights?project_id=123&from_date=2024-01-01&to_date=2024-01-31&event=%5B%22Signup%22%5D'',
          req_method = None,
          req_headers = [(''Authorization'', ''Basic c3ZjOnNoaA==''),
                         (''Content-Type'', ''application/json''),
                         (''Accept'', ''application/json'')],
          req_body = None \<rparr>]\<close>
  using query_insights_request[of "Some False" None "\<lambda>req. Inl (Error ''offline'')"]
  by (simp del: btoa.simps)

lemma js_object_three:
  assumes "a \<noteq> b" and "a \<noteq> k" and "b \<noteq> k"
    and "\<not> is_array_index a" and "\<not> is_array_index b" and "\<not> is_array_index k"
  shows "js_object [(a, x), (b, y), (k, z)] = [(a, x), (b, y), (k, z)]"
  using assms by (simp add: js_object_def obj_put_def)

lemma js_object_one: "js_object [(k, z)] = [(k, z)]"
  by (simp add: js_object_def obj_put_def)

lemma envelope_keys:
  "\<not> is_array_index ''$token''" "\<not> is_array_index ''$distinct_id''"
  "\<not> is_array_index ''$set''" "\<not> is_array_index ''$set_once''" "\<not> is_array_index ''$add''"
  "\<not> is_array_index ''$append''" "\<not> is_array_index ''$remove''" "\<not> is_array_index ''$union''"
  "\<not> is_array_index ''$unset''" "\<not> is_array_index ''$delete''"
  by (simp_all add: is_array_index_def is_digit_def)

lemma snd_engageRequest:
  assumes "projectToken c = Some token" and "token \<noteq> []"
    and "key \<noteq> ''$token''" and "key \<noteq> ''$distinct_id''" and "\<not> is_array_index key"
  shows "snd (engageRequest c fetch key distinctId data) =
           [\<lparr> req_url = getIngestionApiUrl c @ ''/engage'', req_method = Some ''POST'',
              req_headers = [(''Content-Type'', ''application/json'')],
              req_body = Some (JSON_stringify (JArr [JObj [(''$token'', JStr token),
                                 (''$distinct_id'', JStr distinctId), (key, data)]])) \<rparr>]"
proof -
  have "js_object [(''$token'', JStr token), (''$distinct_id'', JStr distinctId), (key, data)]
          = [(''$token'', JStr token), (''$distinct_id'', JStr distinctId), (key, data)]"
    using assms(3-5) by (intro js_object_three) (simp_all add: envelope_keys)
  then show ?thesis
    using assms(1,2)
    by (simp add: engageRequest_def Let_def truthy_str_def snd_post_status
        del: JSON_stringify.simps)
qed

lemma snd_deleteProfile:
  assumes "projectToken c = Some token" and "token \<noteq> []"
  shows "snd (deleteProfile c fetch distinctId) =
           [\<lparr> req_url = getIngestionApiUrl c @ ''/engage'', req_method = Some ''POST'',
              req_headers = [(''Content-Type'', ''application/json'')],
              req_body = Some (JSON_stringify (JArr [JObj [(''$token'', JStr token),
                                 (''$distinct_id'', JStr distinctId), (''$delete'', JStr [])]])) \<rparr>]"
proof -
  have "js_object [(''$token'', JStr token), (''$distinct_id'', JStr distinctId), (''$delete'', JStr [])]
          = [(''$token'', JStr token), (''$distinct_id'', JStr distinctId), (''$delete'', JStr [])]"
    by (intro js_object_three) (simp_all add: envelope_keys)
  then show ?thesis
    using assms
    by (simp add: deleteProfile_def Let_def truthy_str_def snd_post_status
        del: JSON_stringify.simps)
qed

lemma profile_mutation_sent:
  assumes "projectToken c = Some token" and "token \<noteq> []"
    and "profile_mutation op = Some (d, key, payload)"
  shows "key \<in> set [''$set'', ''$set_once'', ''$add'', ''$append'', ''$remove'', ''$union'',
                     ''$unset'', ''$delete'']
         \<and> snd (run c w op) =
           [\<lparr> req_url = getIngestionApiUrl c @ ''/engage'', req_method = Some ''POST'',
              req_headers = [(''Content-Type'', ''application/json'')],
              req_body = Some (JSON_stringify (JArr [JObj [(''$token'', JStr token),
                                 (''$distinct_id'', JStr d), (key, payload)]])) \<rparr>]"
proof (cases op)
  case (DeleteProfile x)
  then show ?thesis
    using assms(3) snd_deleteProfile[OF assms(1,2)] by (simp add: profile_mutation_def)
qed (use assms in \<open>auto simp add: profile_mutation_def setProfileProperties_def
      setProfilePropertiesOnce_def incrementProfileProperties_def appendToProfileList_def
      removeFromProfileList_def unionToProfileList_def unsetProfileProperties_def
      snd_engageRequest envelope_keys js_object_one simp del: JSON_stringify.simps\<close>)

lemma quote_json_plain:
  assumes "list_all (\<lambda>ch. 32 \<le> (of_char ch :: nat) \<and> ch \<noteq> DQ \<and> ch \<noteq> BSL) s"
  shows "quote_json s = [DQ] @ s @ [DQ]"
proof -
  have "concat (map json_escape_char s) = s"
    using assms by (induction s) (auto simp: json_escape_char_def Let_def)
  then show ?thesis by (simp add: quote_json_def)
qed

lemma set_plan_pro_text:
  \<open>JSON_stringify (JArr [JObj [(''$token'', JStr token), (''$distinct_id'', JStr ''u1''),
                              (''$set'', JObj [(''plan'', JStr ''pro'')])]])
     = ''[{"$token":'' @ quote_json token @ '',"$distinct_id":"u1","$set":{"plan":"pro"}}]''\<close>
proof -
  have q: \<open>quote_json ''$token'' = ''"$token"''\<close> \<open>quote_json ''$distinct_id'' = ''"$distinct_id"''\<close>
    \<open>quote_json ''$set'' = ''"$set"''\<close> \<open>quote_json ''plan'' = ''"plan"''\<close>
    \<open>quote_json ''u1'' = ''"u1"''\<close> \<open>quote_json ''pro'' = ''"pro"''\<close>
    by code_simp+
  show ?thesis by (simp add: q)
qed

text \<open>
  C8. With a project token in the credentials, setting the profile properties plan = pro of
  u1 issues exactly one call, a POST to \<open>/engage\<close> on the ingestion surface, whose body is the
  text \<open>[{"$token":"<token>","$distinct_id":"u1","$set":{"plan":"pro"}}]\<close>, the token written
  as a JSON string (itself between quotes when it has no quote, backslash or control
  character). Every profile mutation issues exactly one such call whose body is the array of
  the one object with \<open>$token\<close>, \<open>$distinct_id\<close> and the operation key, in that order, and the
  key is one of the eight.
\<close>

theorem profile_envelope:
  assumes "projectToken c = Some token" and "token \<noteq> []"
  shows \<open>snd (setProfileProperties c fetch ''u1'' [(''plan'', JStr ''pro'')])
           = [\<lparr> req_url = getIngestionApiUrl c @ ''/engage'', req_method = Some ''POST'',
                req_headers = [(''Content-Type'', ''application/json'')],
                req_body = Some (''[{"$token":'' @ quote_json token
                                  @ '',"$distinct_id":"u1","$set":{"plan":"pro"}}]'') \<rparr>]
         \<and> (list_all (\<lambda>ch. 32 \<le> (of_char ch :: nat) \<and> ch \<noteq> DQ \<and> ch \<noteq> BSL) token
              \<longrightarrow> quote_json token = ''"'' @ token @ ''"'')
         \<and> (\<forall>op d key payload w.
               profile_mutation op = Some (d, key, payload) \<longrightarrow>
                 key \<in> set [''$set'', ''$set_once'', ''$add'', ''$append'', ''$remove'', ''$union'',
                            ''$unset'', ''$delete'']
                 \<and> snd (run c w op) =
                     [\<lparr> req_url = getIngestionApiUrl c @ ''/engage'', req_method = Some ''POST'',
                        req_headers = [(''Content-Type'', ''application/json'')],
                        req_body = Some (JSON_stringify (JArr [JObj [(''$token'', JStr token),
                                     (''$distinct_id'', JStr d), (key, payload)]])) \<rparr>])\<close>
proof -
  have 1: \<open>snd (setProfileProperties c fetch ''u1'' [(''plan'', JStr ''pro'')])
           = [\<lparr> req_url = getIngestionApiUrl c @ ''/engage'', req_method = Some ''POST'',
                req_headers = [(''Content-Type'', ''application/json'')],
                req_body = Some (''[{"$token":'' @ quote_json token
                                  @ '',"$distinct_id":"u1","$set":{"plan":"pro"}}]'') \<rparr>]\<close>
    unfolding setProfileProperties_def
    by (subst snd_engageRequest[OF assms]) (simp_all add: envelope_keys set_plan_pro_text
        del: JSON_stringify.simps)
  have 2: \<open>list_all (\<lambda>ch. 32 \<le> (of_char ch :: nat) \<and> ch \<noteq> DQ \<and> ch \<noteq> BSL) token
              \<longrightarrow> quote_json token = ''"'' @ token @ ''"''\<close>
    using quote_json_plain[of token] by simp
  from 1 2 profile_mutation_sent[OF assms] show ?thesis by blast
qed


theorem profile_envelope_witness:
  \<open>snd (setProfileProperties
          \<lparr> username = ''svc'', secret = ''shh'', projectId = ''123'', projectToken = Some ''tok'',
            euResident = Some False \<rparr> (\<lambda>req. Inl (Error ''offline''))
          ''u1'' [(''plan'', JStr ''pro'')])
     = [\<lparr> req_url = ''https://api.mixpanel.com/engage'', req_method = Some ''POST'',
          req_headers = [(''Content-Type'', ''application/json'')],
          req_body = Some ''[{"$token":"tok","$distinct_id":"u1","$set":{"plan":"pro"}}]'' \<rparr>]\<close>
proof -
  let ?c = "\<lparr> username = ''svc'', secret = ''shh'', projectId = ''123'',
              projectToken = Some ''tok'', euResident = Some False \<rparr>"
  have 1: "projectToken ?c = Some ''tok''" by simp
  have 2: "''tok'' \<noteq> []" by simp
  have q: \<open>quote_json ''tok'' = ''"tok"''\<close> by code_simp
  have u: "getIngestionApiUrl ?c = ''https://api.mixpanel.com''"
    by (simp add: getIngestionApiUrl_def INGESTION_API_URL_def)
  show ?thesis
    using profile_envelope[OF 1 2, of "\<lambda>req. Inl (Error ''offline'')"]
    by (simp add: q u)
qed

section \<open>Reading the CSV text back\<close>














text \<open>
  C6 says that for every non-empty list of rows the CSV text, read back by a CSV reader,
  gives every serialized value again. Read back, the text does give the table of the rows
  whenever the first row has a key and no key holds a comma, a quote or a line feed
  (\<open>lookup_table_round_trip\<close>): the values are quoted as the claim says. The header line is
  written without any quoting, though: for the one row with the key \<open>"a\<close> and the value \<open>x\<close>
  the text is \<open>"a\<close>, a line feed, \<open>x\<close>, which reads back as the single field \<open>a\<close>, line
  feed, \<open>x\<close>, and the value is not recovered.
\<close>

theorem unquoted_header_breaks_round_trip:
  \<open>map req_body (snd (createOrReplaceLookupTable proto c fetch tableName [[(''"a'', JStr ''x'')]]))
     = [Some (''"a'' @ [LF] @ ''x'')]
   \<and> parse_csv (''"a'' @ [LF] @ ''x'') = [[''a'' @ [LF] @ ''x'']]
   \<and> table_of proto [[(''"a'', JStr ''x'')]] = [[''"a''], [''x'']]\<close>
proof -
  have 1: \<open>csvContent proto (map fst [(''"a'', JStr ''x'')]) [[(''"a'', JStr ''x'')]] = ''"a'' @ [LF] @ ''x''\<close>
    by code_simp
  have 2: \<open>parse_csv (''"a'' @ [LF] @ ''x'') = [[''a'' @ [LF] @ ''x'']]\<close>
    by code_simp
  have 3: \<open>table_of proto [[(''"a'', JStr ''x'')]] = [[''"a''], [''x'']]\<close>
    by code_simp
  have 4: \<open>map req_body (snd (createOrReplaceLookupTable proto c fetch tableName [[(''"a'', JStr ''x'')]]))
     = [Some (csvContent proto (map fst [(''"a'', JStr ''x'')]) [[(''"a'', JStr ''x'')]])]\<close>
    by (simp add: createOrReplaceLookupTable_def Let_def snd_await_fetch)
  show ?thesis unfolding 4 1 using 2 3 by simp
qed


section \<open>Lookup tables\<close>




text \<open>
  A key that a row lacks but \<open>Object.prototype\<close> defines is not \<open>undefined\<close>: for the rows
  \<open>{toString: 'a', k: 1}\<close> and \<open>{k: 2}\<close> the second line carries the text of the inherited
  function.
\<close>

lemma inherited_member_text:
  \<open>row_get [''toString'' \<mapsto> ''function toString() { [native code] }''] [(''k'', JNum 2)] ''toString''
     = Inherited ''function toString() { [native code] }''
   \<and> csvContent [''toString'' \<mapsto> ''function toString() { [native code] }'']
        [''toString'', ''k''] [[(''toString'', JStr ''a''), (''k'', JNum 1)], [(''k'', JNum 2)]]
     = ''toString,k'' @ [LF] @ ''a,1'' @ [LF] @ ''function toString() { [native code] },2''\<close>
  by code_simp




end
